theory Spec2Isabelle
  imports Complex_Main "HOL-Library.Char_ord" "HOL-Library.List_Lexorder"
begin

section \<open>JavaScript values used by the storage layer\<close>

text \<open>
  An optional property of a parsed request body is either missing (\<open>undefined\<close>),
  \<open>null\<close>, or carries a value. Stored rows only know \<open>null\<close> (\<open>None\<close>) or a value.
\<close>

datatype 'a field = Undefined | Null | Value 'a

text \<open>
  \<^verbatim>\<open>x || null\<close> on a string property: \<open>undefined\<close>, \<open>null\<close> and the empty string are
  falsy and give \<open>null\<close>.
\<close>

fun or_null_str :: "string field \<Rightarrow> string option" where
  "or_null_str Undefined = None"
| "or_null_str Null = None"
| "or_null_str (Value s) = (if s = [] then None else Some s)"

text \<open>\<^verbatim>\<open>x || null\<close> on a boolean property: \<open>false\<close> is falsy as well.\<close>

fun or_null_bool :: "bool field \<Rightarrow> bool option" where
  "or_null_bool Undefined = None"
| "or_null_bool Null = None"
| "or_null_bool (Value b) = (if b then Some True else None)"

section \<open>Rows of shared/schema.ts\<close>

text \<open>
  The three tables. Field names carry a prefix per record, since the tables share
  \<open>id\<close>, \<open>name\<close> and \<open>date\<close>. Identities are JavaScript numbers holding integers;
  they are modelled as unbounded \<open>int\<close> (exact in the source below \<open>2^53\<close>).
\<close>

record Volunteer =
  v_id :: int
  v_name :: string
  v_date :: string
  v_timeIn :: string
  v_timeOut :: "string option"
  v_area :: string
  v_activities :: string

record Guest =
  g_id :: int
  g_name :: string
  g_email :: string
  g_phone :: "string option"
  g_reason :: string
  g_joinNewsletter :: "bool option"
  g_brideName :: "string option"
  g_groomName :: "string option"
  g_tourGuide :: "string option"
  g_date :: string

record Staff =
  s_id :: int
  s_name :: string
  s_date :: string
  s_timeIn :: "string option"
  s_timeOut :: "string option"
  s_notes :: "string option"

text \<open>The insert types: the row without \<open>id\<close>, nullable columns optional.\<close>

record InsertVolunteer =
  iv_name :: string
  iv_date :: string
  iv_timeIn :: string
  iv_timeOut :: "string field"
  iv_area :: string
  iv_activities :: string

record InsertGuest =
  ig_name :: string
  ig_email :: string
  ig_phone :: "string field"
  ig_reason :: string
  ig_joinNewsletter :: "bool field"
  ig_brideName :: "string field"
  ig_groomName :: "string field"
  ig_tourGuide :: "string field"
  ig_date :: string

record InsertStaff =
  is_name :: string
  is_date :: string
  is_timeIn :: "string field"
  is_timeOut :: "string field"
  is_notes :: "string field"

section \<open>The JavaScript Map\<close>

text \<open>
  A \<open>Map\<close> keeps its entries in insertion order and holds a key at most once: it is an
  association list. \<open>set\<close> overwrites in place or appends, \<open>delete\<close> removes the
  entry of the key and says whether there was one, \<open>values\<close> lists the values in order.
\<close>

type_synonym ('k, 'v) js_map = "('k \<times> 'v) list"

fun map_set :: "'k \<Rightarrow> 'v \<Rightarrow> ('k, 'v) js_map \<Rightarrow> ('k, 'v) js_map" where
  "map_set k v [] = [(k, v)]"
| "map_set k v ((k', v') # m) =
     (if k' = k then (k, v) # m else (k', v') # map_set k v m)"

fun map_delete :: "'k \<Rightarrow> ('k, 'v) js_map \<Rightarrow> bool \<times> ('k, 'v) js_map" where
  "map_delete k [] = (False, [])"
| "map_delete k ((k', v') # m) =
     (if k' = k then (True, m)
      else (fst (map_delete k m), (k', v') # snd (map_delete k m)))"

definition map_values :: "('k, 'v) js_map \<Rightarrow> 'v list" where
  "map_values m = map snd m"

definition map_keys :: "('k, 'v) js_map \<Rightarrow> 'k list" where
  "map_keys m = map fst m"

definition map_get :: "'k \<Rightarrow> ('k, 'v) js_map \<Rightarrow> 'v option" where
  "map_get k m = map_of m k"

section \<open>MemStorage\<close>

text \<open>
  The state of the class: three maps and three counters (the \<open>users\<close> map and its
  counter take no part in any operation modelled here and are left out).
\<close>

record MemStorage =
  volunteers :: "(int, Volunteer) js_map"
  guests :: "(int, Guest) js_map"
  staff :: "(int, Staff) js_map"
  currentVolunteerId :: int
  currentGuestId :: int
  currentStaffId :: int

definition MemStorage_new :: MemStorage where
  "MemStorage_new =
     \<lparr>volunteers = [], guests = [], staff = [],
      currentVolunteerId = 1, currentGuestId = 1, currentStaffId = 1\<rparr>"

definition createVolunteer :: "InsertVolunteer \<Rightarrow> MemStorage \<Rightarrow> Volunteer \<times> MemStorage" where
  "createVolunteer insertVolunteer st =
     (let ident = currentVolunteerId st;
          st1 = st\<lparr>currentVolunteerId := currentVolunteerId st + 1\<rparr>;
          volunteer = \<lparr>v_id = ident,
                       v_name = iv_name insertVolunteer,
                       v_date = iv_date insertVolunteer,
                       v_timeIn = iv_timeIn insertVolunteer,
                       v_timeOut = or_null_str (iv_timeOut insertVolunteer),
                       v_area = iv_area insertVolunteer,
                       v_activities = iv_activities insertVolunteer\<rparr>
      in (volunteer, st1\<lparr>volunteers := map_set ident volunteer (volunteers st1)\<rparr>))"

definition getVolunteers :: "MemStorage \<Rightarrow> Volunteer list" where
  "getVolunteers st = map_values (volunteers st)"

definition getVolunteersByCategory :: "string \<Rightarrow> MemStorage \<Rightarrow> Volunteer list" where
  "getVolunteersByCategory category st =
     filter (\<lambda>volunteer. v_area volunteer = category) (map_values (volunteers st))"

definition createGuest :: "InsertGuest \<Rightarrow> MemStorage \<Rightarrow> Guest \<times> MemStorage" where
  "createGuest insertGuest st =
     (let ident = currentGuestId st;
          st1 = st\<lparr>currentGuestId := currentGuestId st + 1\<rparr>;
          guest = \<lparr>g_id = ident,
                   g_name = ig_name insertGuest,
                   g_email = ig_email insertGuest,
                   g_phone = or_null_str (ig_phone insertGuest),
                   g_reason = ig_reason insertGuest,
                   g_joinNewsletter = or_null_bool (ig_joinNewsletter insertGuest),
                   g_brideName = or_null_str (ig_brideName insertGuest),
                   g_groomName = or_null_str (ig_groomName insertGuest),
                   g_tourGuide = or_null_str (ig_tourGuide insertGuest),
                   g_date = ig_date insertGuest\<rparr>
      in (guest, st1\<lparr>guests := map_set ident guest (guests st1)\<rparr>))"

definition getGuests :: "MemStorage \<Rightarrow> Guest list" where
  "getGuests st = map_values (guests st)"

text \<open>The row that the map holds under the identity a creation hands out.\<close>

definition stored_guest :: "InsertGuest \<Rightarrow> MemStorage \<Rightarrow> Guest option" where
  "stored_guest insertGuest st =
     map_get (currentGuestId st) (guests (snd (createGuest insertGuest st)))"

definition createStaff :: "InsertStaff \<Rightarrow> MemStorage \<Rightarrow> Staff \<times> MemStorage" where
  "createStaff insertStaff st =
     (let ident = currentStaffId st;
          st1 = st\<lparr>currentStaffId := currentStaffId st + 1\<rparr>;
          staffRow = \<lparr>s_id = ident,
                      s_name = is_name insertStaff,
                      s_date = is_date insertStaff,
                      s_timeIn = or_null_str (is_timeIn insertStaff),
                      s_timeOut = or_null_str (is_timeOut insertStaff),
                      s_notes = or_null_str (is_notes insertStaff)\<rparr>
      in (staffRow, st1\<lparr>staff := map_set ident staffRow (staff st1)\<rparr>))"

definition getStaff :: "MemStorage \<Rightarrow> Staff list" where
  "getStaff st = map_values (staff st)"

subsection \<open>The unified people view\<close>

text \<open>
  An element of \<open>getAllPeople\<close> is a row spread into a fresh object together with a
  \<open>type\<close> property: the row and the tag string.
\<close>

datatype row = VolunteerRow Volunteer | GuestRow Guest | StaffRow Staff

record Person =
  p_row :: row
  p_type :: string

text \<open>A \<^verbatim>\<open>for (const x of xs) allPeople.push(f x)\<close> loop.\<close>

fun push_each :: "('a \<Rightarrow> 'b) \<Rightarrow> 'a list \<Rightarrow> 'b list \<Rightarrow> 'b list" where
  "push_each f [] allPeople = allPeople"
| "push_each f (x # xs) allPeople = push_each f xs (allPeople @ [f x])"

definition getAllPeople :: "MemStorage \<Rightarrow> Person list" where
  "getAllPeople st =
     (let allPeople = [];
          allPeople = push_each (\<lambda>volunteer. \<lparr>p_row = VolunteerRow volunteer, p_type = ''volunteer''\<rparr>)
                        (map_values (volunteers st)) allPeople;
          allPeople = push_each (\<lambda>guest. \<lparr>p_row = GuestRow guest, p_type = ''guest''\<rparr>)
                        (map_values (guests st)) allPeople;
          allPeople = push_each (\<lambda>staffRow. \<lparr>p_row = StaffRow staffRow, p_type = ''staff''\<rparr>)
                        (map_values (staff st)) allPeople
      in allPeople)"

text \<open>
  The \<open>switch\<close> of \<open>deletePerson\<close>; types are erased at run time, so the kind is a
  string and the \<open>default\<close> branch is kept.
\<close>

definition deletePerson :: "string \<Rightarrow> int \<Rightarrow> MemStorage \<Rightarrow> bool \<times> MemStorage" where
  "deletePerson kind ident st =
     (if kind = ''volunteer'' then
        (fst (map_delete ident (volunteers st)),
         st\<lparr>volunteers := snd (map_delete ident (volunteers st))\<rparr>)
      else if kind = ''guest'' then
        (fst (map_delete ident (guests st)),
         st\<lparr>guests := snd (map_delete ident (guests st))\<rparr>)
      else if kind = ''staff'' then
        (fst (map_delete ident (staff st)),
         st\<lparr>staff := snd (map_delete ident (staff st))\<rparr>)
      else (False, st))"

text \<open>The kind tag a row carries in the people view.\<close>

fun kind_of_row :: "row \<Rightarrow> string" where
  "kind_of_row (VolunteerRow v) = ''volunteer''"
| "kind_of_row (GuestRow g) = ''guest''"
| "kind_of_row (StaffRow s) = ''staff''"

text \<open>
  The rows of one kind as the registry sees them: the map's entries, each value wrapped
  as a row of the unified view. The kind strings are those of the \<open>switch\<close> above.
\<close>

definition entries :: "string \<Rightarrow> MemStorage \<Rightarrow> (int \<times> row) list" where
  "entries kind st =
     (if kind = ''volunteer'' then map (\<lambda>(k, v). (k, VolunteerRow v)) (volunteers st)
      else if kind = ''guest'' then map (\<lambda>(k, g). (k, GuestRow g)) (guests st)
      else if kind = ''staff'' then map (\<lambda>(k, s). (k, StaffRow s)) (staff st)
      else [])"

text \<open>A \<open>Map\<close> never holds a key twice; this is the invariant of the three lists.\<close>

definition distinct_keys :: "MemStorage \<Rightarrow> bool" where
  "distinct_keys st \<longleftrightarrow>
     distinct (map_keys (volunteers st)) \<and> distinct (map_keys (guests st)) \<and>
     distinct (map_keys (staff st))"

subsection \<open>Distinct names\<close>

text \<open>
  \<^verbatim>\<open>new Set(xs)\<close> adds the elements in order and keeps the first occurrence of each;
  \<^verbatim>\<open>Array.from\<close> lists them in insertion order.
\<close>

definition set_add :: "'a \<Rightarrow> 'a list \<Rightarrow> 'a list" where
  "set_add x elems = (if x \<in> set elems then elems else elems @ [x])"

fun set_from :: "'a list \<Rightarrow> 'a list \<Rightarrow> 'a list" where
  "set_from [] elems = elems"
| "set_from (x # xs) elems = set_from xs (set_add x elems)"

definition new_Set :: "'a list \<Rightarrow> 'a list" where
  "new_Set xs = set_from xs []"

text \<open>
  \<^verbatim>\<open>Array.prototype.sort()\<close> without a comparator orders strings by their code units,
  a shorter string before its extensions: the lexicographic order on \<open>string\<close>. The
  sorted arrangement of a list in a linear order is unique, so insertion sort stands for
  the engine's algorithm.
\<close>

definition js_sort :: "string list \<Rightarrow> string list" where
  "js_sort xs = sort xs"

definition getUniqueVolunteerNames :: "MemStorage \<Rightarrow> string list" where
  "getUniqueVolunteerNames st =
     (let vs = map_values (volunteers st);
          uniqueNames = new_Set (map v_name vs)
      in js_sort uniqueNames)"

definition getUniqueStaffNames :: "MemStorage \<Rightarrow> string list" where
  "getUniqueStaffNames st =
     (let ss = map_values (staff st);
          uniqueNames = new_Set (map s_name ss)
      in js_sort uniqueNames)"

subsection \<open>Sequences of operations\<close>

datatype op =
    CreateVolunteer InsertVolunteer
  | CreateGuest InsertGuest
  | CreateStaff InsertStaff
  | DeletePerson string int

text \<open>What a caller observes of one operation: the identity assigned, or the flag.\<close>

datatype event = Created string int | Deleted string int bool

fun exec :: "op \<Rightarrow> MemStorage \<Rightarrow> event \<times> MemStorage" where
  "exec (CreateVolunteer i) st =
     (Created ''volunteer'' (v_id (fst (createVolunteer i st))), snd (createVolunteer i st))"
| "exec (CreateGuest i) st =
     (Created ''guest'' (g_id (fst (createGuest i st))), snd (createGuest i st))"
| "exec (CreateStaff i) st =
     (Created ''staff'' (s_id (fst (createStaff i st))), snd (createStaff i st))"
| "exec (DeletePerson kind ident) st =
     (Deleted kind ident (fst (deletePerson kind ident st)), snd (deletePerson kind ident st))"

fun trace :: "op list \<Rightarrow> MemStorage \<Rightarrow> event list" where
  "trace [] st = []"
| "trace (x # xs) st = fst (exec x st) # trace xs (snd (exec x st))"

fun final :: "op list \<Rightarrow> MemStorage \<Rightarrow> MemStorage" where
  "final [] st = st"
| "final (x # xs) st = final xs (snd (exec x st))"

text \<open>The identities handed out to one kind, in the order of the creations.\<close>

fun assigned :: "string \<Rightarrow> event list \<Rightarrow> int list" where
  "assigned kind [] = []"
| "assigned kind (Created k i # es) =
     (if k = kind then i # assigned kind es else assigned kind es)"
| "assigned kind (Deleted k i b # es) = assigned kind es"

text \<open>The counter of a kind, and: every key of a store lies below its counter.\<close>

definition counter :: "string \<Rightarrow> MemStorage \<Rightarrow> int" where
  "counter kind st =
     (if kind = ''volunteer'' then currentVolunteerId st
      else if kind = ''guest'' then currentGuestId st
      else if kind = ''staff'' then currentStaffId st
      else 0)"

definition keys_below :: "MemStorage \<Rightarrow> bool" where
  "keys_below st \<longleftrightarrow>
     list_all (\<lambda>k. k < currentVolunteerId st) (map_keys (volunteers st)) \<and>
     list_all (\<lambda>k. k < currentGuestId st) (map_keys (guests st)) \<and>
     list_all (\<lambda>k. k < currentStaffId st) (map_keys (staff st))"

section \<open>The statistics route\<close>

subsection \<open>Binary64 numbers\<close>

text \<open>
  A JavaScript number: \<open>NaN\<close>, one of the two infinities, or a finite binary64 value
  given by the rational it denotes. The two zeros are not told apart; the route never
  divides by a computed value, and both print as \<open>0\<close>.
\<close>

datatype num = NaN | Infinity | NegInfinity | Num rat

text \<open>The nearest integer, a tie going to the even one.\<close>

definition round_half_even :: "rat \<Rightarrow> int" where
  "round_half_even x =
     (let f = \<lfloor>x\<rfloor>; d = x - of_int f
      in if d < 1 / 2 then f else if 1 / 2 < d then f + 1 else if even f then f else f + 1)"

text \<open>
  The exponent of the binade of a positive value: the largest \<open>e\<close> from \<open>hi\<close>
  downwards with \<open>2^e \<le> a\<close>, at most \<open>n\<close> steps below \<open>hi\<close>.
\<close>

fun binade :: "nat \<Rightarrow> int \<Rightarrow> rat \<Rightarrow> int" where
  "binade 0 e a = e"
| "binade (Suc n) e a = (if 2 powi e \<le> a then e else binade n (e - 1) a)"

text \<open>
  Rounding a real result to binary64, to nearest with ties to even: 53 significant
  bits for exponents from \<open>-1022\<close> to \<open>1023\<close>, the fixed spacing \<open>2^-1074\<close> below
  (subnormal values), an infinity when the rounded magnitude reaches \<open>2^1024\<close>.
\<close>

definition round64 :: "rat \<Rightarrow> num" where
  "round64 x =
     (if x = 0 then Num 0
      else
        (let a = \<bar>x\<bar>;
             e = binade 2045 1023 a;
             ulp = 2 powi (e - 52);
             r = of_int (round_half_even (a / ulp)) * ulp
         in if 2 powi 1024 \<le> r then (if 0 < x then Infinity else NegInfinity)
            else Num (if 0 < x then r else - r)))"

text \<open>\<^verbatim>\<open>a + b\<close> and \<^verbatim>\<open>a - b\<close>: the exact result rounded.\<close>

fun num_add :: "num \<Rightarrow> num \<Rightarrow> num" where
  "num_add NaN b = NaN"
| "num_add a NaN = NaN"
| "num_add Infinity NegInfinity = NaN"
| "num_add NegInfinity Infinity = NaN"
| "num_add Infinity b = Infinity"
| "num_add a Infinity = Infinity"
| "num_add NegInfinity b = NegInfinity"
| "num_add a NegInfinity = NegInfinity"
| "num_add (Num a) (Num b) = round64 (a + b)"

fun num_neg :: "num \<Rightarrow> num" where
  "num_neg NaN = NaN"
| "num_neg Infinity = NegInfinity"
| "num_neg NegInfinity = Infinity"
| "num_neg (Num a) = Num (- a)"

definition num_sub :: "num \<Rightarrow> num \<Rightarrow> num" where
  "num_sub a b = num_add a (num_neg b)"

text \<open>\<^verbatim>\<open>x / (1000 * 60 * 60)\<close>; the divisor is the number 3600000.\<close>

fun hours_of_ms :: "num \<Rightarrow> num" where
  "hours_of_ms (Num a) = round64 (a / (1000 * 60 * 60))"
| "hours_of_ms x = x"

text \<open>\<^verbatim>\<open>Math.max\<close> is \<open>NaN\<close> as soon as one argument is.\<close>

fun math_max :: "num \<Rightarrow> num \<Rightarrow> num" where
  "math_max NaN b = NaN"
| "math_max a NaN = NaN"
| "math_max Infinity b = Infinity"
| "math_max a Infinity = Infinity"
| "math_max NegInfinity b = b"
| "math_max a NegInfinity = a"
| "math_max (Num a) (Num b) = Num (max a b)"

text \<open>
  \<^verbatim>\<open>Math.round\<close>: the nearest integer, a tie going up. On a binary64 value the
  result is a binary64 value again, so nothing is rounded a second time.
\<close>

fun math_round :: "num \<Rightarrow> num" where
  "math_round (Num a) = Num (of_int \<lfloor>a + 1 / 2\<rfloor>)"
| "math_round x = x"

subsection \<open>Dates\<close>

text \<open>
  A \<open>Date\<close> object is its time value: an integer number of milliseconds of
  magnitude at most \<open>8.64 * 10^15\<close>, or none for an Invalid Date, whose \<open>getTime()\<close>
  is \<open>NaN\<close>. Parsing the string belongs to the runtime and is a parameter
  \<open>mkDate\<close> of the route's model; \<open>new_Date\<close> adds the clipping of the range that
  the constructor applies to every time value.
\<close>

definition new_Date :: "(string \<Rightarrow> int option) \<Rightarrow> string \<Rightarrow> int option" where
  "new_Date mkDate str =
     (case mkDate str of
        None \<Rightarrow> None
      | Some t \<Rightarrow> if \<bar>t\<bar> \<le> 8640000000000000 then Some t else None)"

fun getTime :: "int option \<Rightarrow> num" where
  "getTime None = NaN"
| "getTime (Some t) = Num (of_int t)"

text \<open>Truthiness of a nullable text column: \<open>null\<close> and the empty string are falsy.\<close>

fun truthy :: "string option \<Rightarrow> bool" where
  "truthy None = False"
| "truthy (Some s) = (s \<noteq> [])"

text \<open>A nullable text column inside a template literal.\<close>

fun interpolate :: "string option \<Rightarrow> string" where
  "interpolate None = ''null''"
| "interpolate (Some s) = s"

subsection \<open>The handler\<close>

text \<open>The callback of \<open>staff.reduce\<close>, and the reduction from \<open>0\<close>.\<close>

definition add_hours :: "(string \<Rightarrow> int option) \<Rightarrow> num \<Rightarrow> Staff \<Rightarrow> num" where
  "add_hours mkDate subtotal s =
     (if truthy (s_timeIn s) \<and> truthy (s_timeOut s) then
        (let timeIn = new_Date mkDate (''2024-01-01 '' @ interpolate (s_timeIn s));
             timeOut = new_Date mkDate (''2024-01-01 '' @ interpolate (s_timeOut s));
             hours = hours_of_ms (num_sub (getTime timeOut) (getTime timeIn))
         in num_add subtotal (math_max (Num 0) hours))
      else subtotal)"

definition totalHours :: "(string \<Rightarrow> int option) \<Rightarrow> Staff list \<Rightarrow> num" where
  "totalHours mkDate staffRows = foldl (add_hours mkDate) (Num 0) staffRows"

text \<open>
  The object the route answers with. When \<open>hours\<close> is \<open>NaN\<close> the JSON encoding of
  the response writes it as \<open>null\<close>.
\<close>

record Stats =
  stat_volunteers :: nat
  stat_guests :: nat
  stat_hours :: num

definition computeStats ::
  "(string \<Rightarrow> int option) \<Rightarrow> Volunteer list \<Rightarrow> Guest list \<Rightarrow> Staff list \<Rightarrow> Stats" where
  "computeStats mkDate vs gs ss =
     \<lparr>stat_volunteers = length vs, stat_guests = length gs,
      stat_hours = math_round (totalHours mkDate ss)\<rparr>"

definition get_stats :: "(string \<Rightarrow> int option) \<Rightarrow> MemStorage \<Rightarrow> Stats" where
  "get_stats mkDate st = computeStats mkDate (getVolunteers st) (getGuests st) (getStaff st)"

subsection \<open>A reference Date constructor for the examples\<close>

text \<open>
  The strings the clients submit are \<^verbatim>\<open>toLocaleTimeString()\<close> outputs such as
  \<^verbatim>\<open>3:45:12 PM\<close>. \<open>Date_en_US\<close> serves the closed examples. It reads
  \<^verbatim>\<open>2024-01-01\<close>, blanks, a clock time \<^verbatim>\<open>h:mm\<close> or \<^verbatim>\<open>h:mm:ss\<close> and, optionally after
  further blanks, \<open>AM\<close> or \<open>PM\<close> in any letter case, the way the runtime's parser
  does: without a meridiem the hour is at most 23 (or the time is 24:00:00); with one the
  hour is at most 12, taken modulo 12, plus 12 for \<open>PM\<close>; minutes and seconds are at
  most 59. The result is that time of day on the reference date in milliseconds, the
  zone being UTC. For every other string it answers Invalid Date. The runtime does so
  for a word it does not know after a number, as in the examples; it accepts further
  forms (zone names, month names, fractions of a second) that no example uses.
\<close>

definition digit_of :: "char \<Rightarrow> nat option" where
  "digit_of c =
     (let n = (of_char c :: nat) in if 48 \<le> n \<and> n \<le> 57 then Some (n - 48) else None)"

fun digits_val :: "string \<Rightarrow> nat \<Rightarrow> nat option" where
  "digits_val [] acc = Some acc"
| "digits_val (c # cs) acc =
     (case digit_of c of None \<Rightarrow> None | Some d \<Rightarrow> digits_val cs (10 * acc + d))"

definition number_of :: "string \<Rightarrow> nat option" where
  "number_of s = (if s = [] then None else digits_val s 0)"

fun split_on :: "char \<Rightarrow> string \<Rightarrow> string \<Rightarrow> string list" where
  "split_on sep [] cur = [cur]"
| "split_on sep (c # cs) cur =
     (if c = sep then cur # split_on sep cs [] else split_on sep cs (cur @ [c]))"

definition blank_separated :: "string \<Rightarrow> string list" where
  "blank_separated t = filter (\<lambda>w. w \<noteq> []) (split_on CHR '' '' t [])"

definition meridiem :: "string \<Rightarrow> nat option" where
  "meridiem w =
     (if w \<in> {''AM'', ''am'', ''Am'', ''aM''} then Some 0
      else if w \<in> {''PM'', ''pm'', ''Pm'', ''pM''} then Some 12
      else None)"

definition clock_fields :: "string \<Rightarrow> (nat \<times> nat \<times> nat) option" where
  "clock_fields clock =
     (case map number_of (split_on CHR '':'' clock []) of
        [Some h, Some m] \<Rightarrow> Some (h, m, 0)
      | [Some h, Some m, Some s] \<Rightarrow> Some (h, m, s)
      | _ \<Rightarrow> None)"

definition day_ms :: "nat \<Rightarrow> nat \<Rightarrow> nat \<Rightarrow> nat" where
  "day_ms h m s = ((h * 60 + m) * 60 + s) * 1000"

definition clock_ms :: "string \<Rightarrow> nat option" where
  "clock_ms t =
     (case blank_separated t of
        [clock] \<Rightarrow>
          (case clock_fields clock of
             Some (h, m, s) \<Rightarrow>
               if (h \<le> 23 \<and> m \<le> 59 \<and> s \<le> 59) \<or> (h = 24 \<and> m = 0 \<and> s = 0)
               then Some (day_ms h m s) else None
           | None \<Rightarrow> None)
      | [clock, w] \<Rightarrow>
          (case (clock_fields clock, meridiem w) of
             (Some (h, m, s), Some shift12) \<Rightarrow>
               if h \<le> 12 \<and> m \<le> 59 \<and> s \<le> 59
               then Some (day_ms (h mod 12 + shift12) m s) else None
           | _ \<Rightarrow> None)
      | _ \<Rightarrow> None)"

definition Date_en_US :: "string \<Rightarrow> int option" where
  "Date_en_US str =
     (if take 11 str = ''2024-01-01 ''
      then map_option (\<lambda>ms. 1704067200000 + int ms) (clock_ms (drop 11 str))
      else None)"

text \<open>A staff row with the two time columns given, for the examples.\<close>

definition shift :: "string option \<Rightarrow> string option \<Rightarrow> Staff" where
  "shift tin tout =
     \<lparr>s_id = 1, s_name = ''Pat'', s_date = ''7/22/2025'',
      s_timeIn = tin, s_timeOut = tout, s_notes = None\<rparr>"

subsection \<open>What the claims say of the hours\<close>

text \<open>
  A row counts when both times are present. Its two Date objects, whether both are
  valid, its term in the running sum as the handler computes it, and the duration in
  hours clamped at \<open>0\<close> as an exact rational, which is what the specification sums.
\<close>

definition both_present :: "Staff \<Rightarrow> bool" where
  "both_present s \<longleftrightarrow> truthy (s_timeIn s) \<and> truthy (s_timeOut s)"

definition date_in :: "(string \<Rightarrow> int option) \<Rightarrow> Staff \<Rightarrow> int option" where
  "date_in mkDate s = new_Date mkDate (''2024-01-01 '' @ interpolate (s_timeIn s))"

definition date_out :: "(string \<Rightarrow> int option) \<Rightarrow> Staff \<Rightarrow> int option" where
  "date_out mkDate s = new_Date mkDate (''2024-01-01 '' @ interpolate (s_timeOut s))"

definition parses :: "(string \<Rightarrow> int option) \<Rightarrow> Staff \<Rightarrow> bool" where
  "parses mkDate s \<longleftrightarrow> date_in mkDate s \<noteq> None \<and> date_out mkDate s \<noteq> None"

definition row_term :: "(string \<Rightarrow> int option) \<Rightarrow> Staff \<Rightarrow> num" where
  "row_term mkDate s =
     math_max (Num 0)
       (hours_of_ms (num_sub (getTime (date_out mkDate s)) (getTime (date_in mkDate s))))"

definition exact_hours :: "(string \<Rightarrow> int option) \<Rightarrow> Staff \<Rightarrow> rat" where
  "exact_hours mkDate s =
     (case (date_in mkDate s, date_out mkDate s) of
        (Some tin, Some tout) \<Rightarrow> max 0 ((of_int tout - of_int tin) / 3600000)
      | _ \<Rightarrow> 0)"

text \<open>A row lasts a whole number of hours.\<close>

definition whole_hours :: "(string \<Rightarrow> int option) \<Rightarrow> Staff \<Rightarrow> bool" where
  "whole_hours mkDate s \<longleftrightarrow>
     (case (date_in mkDate s, date_out mkDate s) of
        (Some tin, Some tout) \<Rightarrow> (tout - tin) mod 3600000 = 0
      | _ \<Rightarrow> False)"

section \<open>The guest registration route\<close>

text \<open>
  A request body after JSON decoding. Numbers only matter here as "not a string, not a
  boolean", so their value is an integer.
\<close>

datatype json =
    JNull | JBool bool | JNum int | JStr string | JArr "json list"
  | JObj "(string \<times> json) list"

text \<open>Reading a property of a decoded object: the last of equal keys counts.\<close>

definition property :: "(string \<times> json) list \<Rightarrow> string \<Rightarrow> json option" where
  "property kvs key = map_of (rev kvs) key"

text \<open>The type name a validation issue reports for what it received.\<close>

fun received :: "json option \<Rightarrow> string" where
  "received None = ''undefined''"
| "received (Some JNull) = ''null''"
| "received (Some (JBool b)) = ''boolean''"
| "received (Some (JNum n)) = ''number''"
| "received (Some (JStr s)) = ''string''"
| "received (Some (JArr xs)) = ''array''"
| "received (Some (JObj kvs)) = ''object''"

record ZodIssue =
  zi_path :: "string list"
  zi_expected :: string
  zi_received :: string

text \<open>
  \<open>insertGuestSchema\<close> is \<^verbatim>\<open>createInsertSchema(guests).omit({ id: true })\<close>: the
  schema library derives one validator per column. A \<open>notNull\<close> text column without a
  default must be a string; a nullable column (with or without a default) may be
  missing, \<open>null\<close>, or a value of the column's type. No validator looks at another
  property. The three validators give the issues of one property.
\<close>

fun z_string :: "string \<Rightarrow> json option \<Rightarrow> ZodIssue list" where
  "z_string key (Some (JStr s)) = []"
| "z_string key v = [\<lparr>zi_path = [key], zi_expected = ''string'', zi_received = received v\<rparr>]"

fun z_string_nullable_optional :: "string \<Rightarrow> json option \<Rightarrow> ZodIssue list" where
  "z_string_nullable_optional key None = []"
| "z_string_nullable_optional key (Some JNull) = []"
| "z_string_nullable_optional key (Some (JStr s)) = []"
| "z_string_nullable_optional key v =
     [\<lparr>zi_path = [key], zi_expected = ''string'', zi_received = received v\<rparr>]"

fun z_boolean_nullable_optional :: "string \<Rightarrow> json option \<Rightarrow> ZodIssue list" where
  "z_boolean_nullable_optional key None = []"
| "z_boolean_nullable_optional key (Some JNull) = []"
| "z_boolean_nullable_optional key (Some (JBool b)) = []"
| "z_boolean_nullable_optional key v =
     [\<lparr>zi_path = [key], zi_expected = ''boolean'', zi_received = received v\<rparr>]"

text \<open>The parsed value of a property that passed its validator.\<close>

fun as_string :: "json option \<Rightarrow> string" where
  "as_string (Some (JStr s)) = s"
| "as_string v = []"

fun as_string_field :: "json option \<Rightarrow> string field" where
  "as_string_field (Some (JStr s)) = Value s"
| "as_string_field (Some JNull) = Null"
| "as_string_field v = Undefined"

fun as_bool_field :: "json option \<Rightarrow> bool field" where
  "as_bool_field (Some (JBool b)) = Value b"
| "as_bool_field (Some JNull) = Null"
| "as_bool_field v = Undefined"

text \<open>The issues of an object against the schema, in the order of the columns.\<close>

definition guest_issues :: "(string \<times> json) list \<Rightarrow> ZodIssue list" where
  "guest_issues kvs =
     z_string ''name'' (property kvs ''name'') @
     z_string ''email'' (property kvs ''email'') @
     z_string_nullable_optional ''phone'' (property kvs ''phone'') @
     z_string ''reason'' (property kvs ''reason'') @
     z_boolean_nullable_optional ''joinNewsletter'' (property kvs ''joinNewsletter'') @
     z_string_nullable_optional ''brideName'' (property kvs ''brideName'') @
     z_string_nullable_optional ''groomName'' (property kvs ''groomName'') @
     z_string_nullable_optional ''tourGuide'' (property kvs ''tourGuide'') @
     z_string ''date'' (property kvs ''date'')"

text \<open>\<open>insertGuestSchema.parse\<close>: the issues (a \<open>ZodError\<close>), or the typed input.\<close>

fun insertGuestSchema_parse :: "json \<Rightarrow> ZodIssue list + InsertGuest" where
  "insertGuestSchema_parse (JObj kvs) =
     (if guest_issues kvs = [] then
        Inr \<lparr>ig_name = as_string (property kvs ''name''),
             ig_email = as_string (property kvs ''email''),
             ig_phone = as_string_field (property kvs ''phone''),
             ig_reason = as_string (property kvs ''reason''),
             ig_joinNewsletter = as_bool_field (property kvs ''joinNewsletter''),
             ig_brideName = as_string_field (property kvs ''brideName''),
             ig_groomName = as_string_field (property kvs ''groomName''),
             ig_tourGuide = as_string_field (property kvs ''tourGuide''),
             ig_date = as_string (property kvs ''date'')\<rparr>
      else Inl (guest_issues kvs))"
| "insertGuestSchema_parse body =
     Inl [\<lparr>zi_path = [], zi_expected = ''object'', zi_received = received (Some body)\<rparr>]"

text \<open>
  The answers of the route: the created row, status 400 with the message and the
  issues when parsing raises a \<open>ZodError\<close>, status 500 with a message when anything
  else raises.
\<close>

datatype response = Json200 Guest | Json400 string "ZodIssue list" | Json500 string

text \<open>
  The route calls \<open>storage.createGuest\<close> through the \<open>IStorage\<close> interface. The
  store is a parameter: a function from the typed input and the store's state to the
  created row or a raised error, and the new state.
\<close>

datatype storage_error = StorageError

definition post_guest ::
  "(InsertGuest \<Rightarrow> 'db \<Rightarrow> (storage_error + Guest) \<times> 'db) \<Rightarrow> json \<Rightarrow> 'db \<Rightarrow> response \<times> 'db" where
  "post_guest storage_createGuest body db =
     (case insertGuestSchema_parse body of
        Inl errors \<Rightarrow> (Json400 ''Invalid guest data'' errors, db)
      | Inr guestData \<Rightarrow>
          (case storage_createGuest guestData db of
             (Inr guest, db') \<Rightarrow> (Json200 guest, db')
           | (Inl err, db') \<Rightarrow> (Json500 ''Failed to register guest'', db')))"

text \<open>The in-memory store behind the interface; it raises nothing.\<close>

definition MemStorage_createGuest ::
  "InsertGuest \<Rightarrow> MemStorage \<Rightarrow> (storage_error + Guest) \<times> MemStorage" where
  "MemStorage_createGuest insertGuest st =
     (Inr (fst (createGuest insertGuest st)), snd (createGuest insertGuest st))"

text \<open>
  \<open>DatabaseStorage.createGuest\<close>, the store the application exports, inserts the
  input into the \<open>guests\<close> table and returns the inserted row. By the table's
  declaration the \<open>id\<close> comes from the serial sequence, a nullable column left out
  of the input is \<open>null\<close>, \<open>joinNewsletter\<close> left out takes its default
  \<open>false\<close>, and a value given (also \<open>null\<close>, the empty string or \<open>false\<close>) is
  stored as it is. When the database cannot carry out the statement the call raises;
  \<open>db_available\<close> stands for that condition.
\<close>

record Database =
  guests_table :: "Guest list"
  guests_id_seq :: int
  db_available :: bool

definition Database_new :: Database where
  "Database_new = \<lparr>guests_table = [], guests_id_seq = 1, db_available = True\<rparr>"

fun column_value :: "'a option \<Rightarrow> 'a field \<Rightarrow> 'a option" where
  "column_value dflt Undefined = dflt"
| "column_value dflt Null = None"
| "column_value dflt (Value v) = Some v"

definition DatabaseStorage_createGuest ::
  "InsertGuest \<Rightarrow> Database \<Rightarrow> (storage_error + Guest) \<times> Database" where
  "DatabaseStorage_createGuest insertGuest db =
     (if db_available db then
        (let guest = \<lparr>g_id = guests_id_seq db,
                        g_name = ig_name insertGuest,
                        g_email = ig_email insertGuest,
                        g_phone = column_value None (ig_phone insertGuest),
                        g_reason = ig_reason insertGuest,
                        g_joinNewsletter = column_value (Some False) (ig_joinNewsletter insertGuest),
                        g_brideName = column_value None (ig_brideName insertGuest),
                        g_groomName = column_value None (ig_groomName insertGuest),
                        g_tourGuide = column_value None (ig_tourGuide insertGuest),
                        g_date = ig_date insertGuest\<rparr>
         in (Inr guest, db\<lparr>guests_table := guests_table db @ [guest],
                            guests_id_seq := guests_id_seq db + 1\<rparr>))
      else (Inl StorageError, db))"

text \<open>The shapes the validators accept, as predicates on a property.\<close>

fun is_str :: "json option \<Rightarrow> bool" where
  "is_str (Some (JStr s)) = True"
| "is_str v = False"

fun is_opt_str :: "json option \<Rightarrow> bool" where
  "is_opt_str None = True"
| "is_opt_str (Some JNull) = True"
| "is_opt_str (Some (JStr s)) = True"
| "is_opt_str v = False"

fun is_opt_bool :: "json option \<Rightarrow> bool" where
  "is_opt_bool None = True"
| "is_opt_bool (Some JNull) = True"
| "is_opt_bool (Some (JBool b)) = True"
| "is_opt_bool v = False"

text \<open>A wedding registration that leaves \<open>brideName\<close> out, and inputs for examples.\<close>

definition wedding_fields :: "(string \<times> json) list" where
  "wedding_fields =
     [(''name'', JStr ''Ann & Bob''), (''email'', JStr ''ann@example.org''),
      (''reason'', JStr ''wedding''), (''date'', JStr ''7/22/2025'')]"

definition guest_minimal :: InsertGuest where
  "guest_minimal =
     \<lparr>ig_name = ''Ann'', ig_email = ''ann@example.org'', ig_phone = Undefined,
      ig_reason = ''historic'', ig_joinNewsletter = Undefined, ig_brideName = Undefined,
      ig_groomName = Undefined, ig_tourGuide = Undefined, ig_date = ''7/22/2025''\<rparr>"

definition guest_falsy :: InsertGuest where
  "guest_falsy =
     \<lparr>ig_name = ''Ann'', ig_email = ''ann@example.org'', ig_phone = Value [],
      ig_reason = ''historic'', ig_joinNewsletter = Value False, ig_brideName = Value [],
      ig_groomName = Value [], ig_tourGuide = Value [], ig_date = ''7/22/2025''\<rparr>"

definition checkin :: "string \<Rightarrow> string \<Rightarrow> InsertVolunteer" where
  "checkin person area =
     \<lparr>iv_name = person, iv_date = ''7/22/2025'', iv_timeIn = ''3:45:12 PM'',
      iv_timeOut = Undefined, iv_area = area, iv_activities = ''weeding''\<rparr>"

definition clock_in :: "string \<Rightarrow> InsertStaff" where
  "clock_in person =
     \<lparr>is_name = person, is_date = ''7/22/2025'', is_timeIn = Value ''9:00:00 AM'',
      is_timeOut = Undefined, is_notes = Undefined\<rparr>"

text \<open>Two small histories for the examples.\<close>

definition demo_store :: MemStorage where
  "demo_store =
     final [CreateVolunteer (checkin ''Bob'' ''garden''), CreateGuest guest_minimal,
            CreateStaff (clock_in ''Pat'')] MemStorage_new"

definition demo_checkins :: "op list" where
  "demo_checkins =
     [CreateVolunteer (checkin ''Bob'' ''garden''), CreateVolunteer (checkin ''Ann'' ''garden''),
      CreateVolunteer (checkin ''Bob'' ''house'')]"

section \<open>Properties of binary64 rounding\<close>

lemma binade_found:
  "2 powi e \<le> a \<Longrightarrow> a < 2 powi (e + 1) \<Longrightarrow> e \<le> hi \<Longrightarrow> hi - int n \<le> e \<Longrightarrow>
   binade n hi a = e"
proof (induction n arbitrary: hi)
  case 0
  then show ?case by simp
next
  case (Suc n)
  show ?case
  proof (cases "2 powi hi \<le> a")
    case True
    with Suc.prems(2) have "(2::rat) powi hi < 2 powi (e + 1)" by simp
    then have "hi < e + 1"
      using power_int_increasing [of "e + 1" hi "2::rat"] by (cases "hi < e + 1") auto
    with Suc.prems(3) True show ?thesis by simp
  next
    case False
    with Suc.prems(1) have "hi \<noteq> e" by auto
    with Suc.prems have "binade n (hi - 1) a = e"
      by (intro Suc.IH) auto
    with False show ?thesis by simp
  qed
qed

lemma round_half_even_exact: "round_half_even (of_int m) = m"
  by (simp add: round_half_even_def)

lemma round_half_even_near:
  assumes lo: "of_int m - 1 / 2 < x" and hi: "x < of_int m + 1 / 2"
  shows "round_half_even x = m"
proof (cases "of_int m \<le> x")
  case True
  with hi have "\<lfloor>x\<rfloor> = m" by (simp add: floor_eq_iff)
  with hi show ?thesis by (simp add: round_half_even_def)
next
  case False
  with lo have f: "\<lfloor>x\<rfloor> = m - 1" by (simp add: floor_eq_iff)
  with lo have "1 / 2 < x - of_int \<lfloor>x\<rfloor>" by simp
  with f show ?thesis by (simp add: round_half_even_def)
qed

lemma round_half_even_tie:
  assumes x: "x = of_int m + 1 / 2" and m: "even m"
  shows "round_half_even x = m"
proof -
  have "\<lfloor>x\<rfloor> = m" unfolding x by (simp add: floor_eq_iff)
  with x m show ?thesis by (simp add: round_half_even_def)
qed

lemma round64_normal:
  assumes "0 < x" and "2 powi e \<le> x" and "x < 2 powi (e + 1)"
    and "- 1022 \<le> e" and "e \<le> 1023"
    and "round_half_even (x / 2 powi (e - 52)) = m"
    and "of_int m * 2 powi (e - 52) < (2::rat) powi 1024"
  shows "round64 x = Num (of_int m * 2 powi (e - 52))"
proof -
  have "binade 2045 1023 x = e"
    using assms(2-5) by (intro binade_found) auto
  with assms(1,6,7) show ?thesis
    by (simp add: round64_def Let_def abs_of_pos)
qed

lemma round64_exact:
  assumes pos: "0 < x" and lo: "2 powi e \<le> x" and hi: "x < 2 powi (e + 1)"
    and emin: "- 1022 \<le> e" and emax: "e \<le> 1023"
    and whole: "x / 2 powi (e - 52) = of_int m"
  shows "round64 x = Num x"
proof -
  have scaled: "of_int m * 2 powi (e - 52) = x"
    using whole by (simp add: field_simps)
  have "(2::rat) powi (e + 1) \<le> 2 powi 1024"
    using emax by (intro power_int_increasing) auto
  with hi have "x < 2 powi 1024" by simp
  with scaled have "of_int m * 2 powi (e - 52) < (2::rat) powi 1024" by simp
  moreover have "round_half_even (x / 2 powi (e - 52)) = m"
    by (simp add: whole round_half_even_exact)
  ultimately have "round64 x = Num (of_int m * 2 powi (e - 52))"
    using pos lo hi emin emax by (intro round64_normal) auto
  with scaled show ?thesis by simp
qed

lemma round64_minus: "round64 (- x) = num_neg (round64 x)"
  by (cases "x = 0"; cases "0 < x") (auto simp: round64_def Let_def)

text \<open>Every integer of magnitude at most \<open>2^53\<close>, and its double, is a binary64 value.\<close>

lemma round64_nat_shift:
  assumes n: "n \<le> 2 ^ 53" and j: "j \<le> 1"
  shows "round64 (of_nat n * 2 ^ j) = Num (of_nat n * 2 ^ j)"
proof (cases "n = 0")
  case True
  then show ?thesis by (simp add: round64_def)
next
  case False
  then have "1 \<le> n" by simp
  from ex_power_ivl1 [OF _ this, of 2]
  obtain k where k: "2 ^ k \<le> n" "n < 2 ^ (k + 1)" by auto
  from k(1) n have "(2::nat) ^ k \<le> 2 ^ 53" by (rule order_trans)
  then have k53: "k \<le> 53" by (rule power_le_imp_le_exp [rotated]) simp
  let ?x = "of_nat n * 2 ^ j :: rat"
  let ?e = "int (k + j)"
  have pos: "0 < ?x" using False by simp
  have e_pow: "(2::rat) powi ?e = 2 ^ (k + j)" "(2::rat) powi (?e + 1) = 2 ^ (k + 1 + j)"
  proof -
    show "(2::rat) powi ?e = 2 ^ (k + j)" by (simp only: power_int_of_nat)
    have "?e + 1 = int (k + 1 + j)" by simp
    then show "(2::rat) powi (?e + 1) = 2 ^ (k + 1 + j)" by (simp only: power_int_of_nat)
  qed
  have lo: "2 powi ?e \<le> ?x"
  proof -
    from k(1) have "(of_nat (2 ^ k) :: rat) \<le> of_nat n" by (rule of_nat_mono)
    then have "(2 ^ k :: rat) \<le> of_nat n" by simp
    then have "(2 ^ k :: rat) * 2 ^ j \<le> of_nat n * 2 ^ j" by simp
    then show ?thesis unfolding e_pow by (simp only: power_add)
  qed
  have hi: "?x < 2 powi (?e + 1)"
  proof -
    from k(2) have "(of_nat n :: rat) < of_nat (2 ^ (k + 1))" by (simp only: of_nat_less_iff)
    then have "(of_nat n :: rat) < 2 ^ (k + 1)" by simp
    then have "of_nat n * 2 ^ j < (2 ^ (k + 1) :: rat) * 2 ^ j" by simp
    then show ?thesis unfolding e_pow by (simp only: power_add)
  qed
  have "\<exists>m. ?x / 2 powi (?e - 52) = of_int m"
  proof (cases "k \<le> 52")
    case True
    have "?x / 2 powi (?e - 52) = of_nat n * 2 ^ j * 2 powi (52 - ?e)"
      by (simp add: power_int_diff field_simps)
    also have "52 - ?e = int (52 - k) - int j" using True by simp
    also have "of_nat n * 2 ^ j * (2::rat) powi (int (52 - k) - int j) = of_nat n * 2 ^ (52 - k)"
      by (simp add: power_int_diff)
    also have "\<dots> = of_int (int n * 2 ^ (52 - k))" by simp
    finally show ?thesis by blast
  next
    case False
    with k53 have k: "k = 53" by simp
    with \<open>2 ^ k \<le> n\<close> n have "n = 2 ^ 53" by simp
    with k have "?x / 2 powi (?e - 52) = of_int (2 ^ 52)"
      by (simp add: power_int_diff power_int_add field_simps)
    then show ?thesis by blast
  qed
  then obtain m where "?x / 2 powi (?e - 52) = of_int m" ..
  moreover have "- 1022 \<le> ?e" "?e \<le> 1023" using k53 j by simp_all
  ultimately show ?thesis using pos lo hi by (intro round64_exact)
qed

lemma round64_int:
  assumes "\<bar>n\<bar> \<le> 2 ^ 53"
  shows "round64 (of_int n) = Num (of_int n)"
proof (cases "0 \<le> n")
  case True
  with assms round64_nat_shift [of "nat n" 0] show ?thesis by simp
next
  case False
  with assms round64_nat_shift [of "nat (- n)" 0]
  have "round64 (of_int (- n)) = Num (of_int (- n))" by simp
  then show ?thesis
    using round64_minus [of "of_int (- n)"] by simp
qed

lemma round64_int_twice:
  assumes "\<bar>n\<bar> \<le> 2 ^ 53"
  shows "round64 (of_int (2 * n)) = Num (of_int (2 * n))"
proof (cases "0 \<le> n")
  case True
  with assms round64_nat_shift [of "nat n" 1] show ?thesis by (simp add: mult.commute)
next
  case False
  with assms round64_nat_shift [of "nat (- n)" 1]
  have "round64 (of_int (2 * - n)) = Num (of_int (2 * - n))" by (simp add: mult.commute)
  then show ?thesis
    using round64_minus [of "of_int (2 * - n)"] by simp
qed

section \<open>Properties of the statistics route\<close>

subsection \<open>The reference Date constructor on the example strings\<close>

lemma number_0: "number_of ''00'' = Some 0" by (simp add: number_of_def digit_of_def)
lemma number_5: "number_of ''5'' = Some 5" by (simp add: number_of_def digit_of_def)
lemma number_9: "number_of ''9'' = Some 9" by (simp add: number_of_def digit_of_def)
lemma number_10: "number_of ''10'' = Some 10" by (simp add: number_of_def digit_of_def)
lemma number_12: "number_of ''12'' = Some 12" by (simp add: number_of_def digit_of_def)
lemma number_24: "number_of ''24'' = Some 24" by (simp add: number_of_def digit_of_def)
lemma number_30: "number_of ''30'' = Some 30" by (simp add: number_of_def digit_of_def)
lemma number_42: "number_of ''42'' = Some 42" by (simp add: number_of_def digit_of_def)

lemmas numbers = number_0 number_5 number_9 number_10 number_12 number_24 number_30 number_42

lemma fields_9_00: "clock_fields ''9:00:00'' = Some (9, 0, 0)"
  by (simp add: clock_fields_def numbers)
lemma fields_5_00: "clock_fields ''5:00:00'' = Some (5, 0, 0)"
  by (simp add: clock_fields_def numbers)
lemma fields_9_42: "clock_fields ''9:42:00'' = Some (9, 42, 0)"
  by (simp add: clock_fields_def numbers)
lemma fields_10_24: "clock_fields ''10:24:00'' = Some (10, 24, 0)"
  by (simp add: clock_fields_def numbers)
lemma fields_12_30: "clock_fields ''12:30:00'' = Some (12, 30, 0)"
  by (simp add: clock_fields_def numbers)

lemma meridiem_AM: "meridiem ''AM'' = Some 0" by (simp add: meridiem_def)
lemma meridiem_PM: "meridiem ''PM'' = Some 12" by (simp add: meridiem_def)

lemma words_9am: "blank_separated ''9:00:00 AM'' = [''9:00:00'', ''AM'']"
  by (simp add: blank_separated_def)
lemma words_5pm: "blank_separated ''5:00:00 PM'' = [''5:00:00'', ''PM'']"
  by (simp add: blank_separated_def)
lemma words_942: "blank_separated ''9:42:00 AM'' = [''9:42:00'', ''AM'']"
  by (simp add: blank_separated_def)
lemma words_1024: "blank_separated ''10:24:00 AM'' = [''10:24:00'', ''AM'']"
  by (simp add: blank_separated_def)
lemma words_1230: "blank_separated ''12:30:00 PM'' = [''12:30:00'', ''PM'']"
  by (simp add: blank_separated_def)
lemma words_garbage: "blank_separated ''garbage'' = [''garbage'']"
  by (simp add: blank_separated_def)

lemma fields_garbage: "clock_fields ''garbage'' = None"
  by (simp add: clock_fields_def number_of_def digit_of_def)

lemma clock_9am: "clock_ms ''9:00:00 AM'' = Some 32400000"
  by (simp add: clock_ms_def words_9am fields_9_00 meridiem_AM day_ms_def)
lemma clock_5pm: "clock_ms ''5:00:00 PM'' = Some 61200000"
  by (simp add: clock_ms_def words_5pm fields_5_00 meridiem_PM day_ms_def)
lemma clock_942: "clock_ms ''9:42:00 AM'' = Some 34920000"
  by (simp add: clock_ms_def words_942 fields_9_42 meridiem_AM day_ms_def)
lemma clock_1024: "clock_ms ''10:24:00 AM'' = Some 37440000"
  by (simp add: clock_ms_def words_1024 fields_10_24 meridiem_AM day_ms_def)
lemma clock_1230: "clock_ms ''12:30:00 PM'' = Some 45000000"
  by (simp add: clock_ms_def words_1230 fields_12_30 meridiem_PM day_ms_def)
lemma clock_garbage: "clock_ms ''garbage'' = None"
  by (simp add: clock_ms_def words_garbage fields_garbage)

lemma Date_9am: "new_Date Date_en_US ''2024-01-01 9:00:00 AM'' = Some 1704099600000"
  by (simp add: new_Date_def Date_en_US_def clock_9am)
lemma Date_5pm: "new_Date Date_en_US ''2024-01-01 5:00:00 PM'' = Some 1704128400000"
  by (simp add: new_Date_def Date_en_US_def clock_5pm)
lemma Date_942: "new_Date Date_en_US ''2024-01-01 9:42:00 AM'' = Some 1704102120000"
  by (simp add: new_Date_def Date_en_US_def clock_942)
lemma Date_1024: "new_Date Date_en_US ''2024-01-01 10:24:00 AM'' = Some 1704104640000"
  by (simp add: new_Date_def Date_en_US_def clock_1024)
lemma Date_1230: "new_Date Date_en_US ''2024-01-01 12:30:00 PM'' = Some 1704112200000"
  by (simp add: new_Date_def Date_en_US_def clock_1230)
lemma Date_garbage: "new_Date Date_en_US ''2024-01-01 garbage'' = None"
  by (simp add: new_Date_def Date_en_US_def clock_garbage)

lemmas Dates = Date_9am Date_5pm Date_942 Date_1024 Date_1230 Date_garbage

subsection \<open>The reduction\<close>

lemma num_add_NaN: "num_add a NaN = NaN"
  by (cases a) simp_all

lemma add_hours_term:
  "add_hours mkDate t r = (if both_present r then num_add t (row_term mkDate r) else t)"
  by (simp add: add_hours_def both_present_def row_term_def date_in_def date_out_def Let_def)

lemma foldl_add_hours:
  "foldl (add_hours mkDate) t rs =
   foldl num_add t (map (row_term mkDate) (filter both_present rs))"
  by (induction rs arbitrary: t) (simp_all add: add_hours_term)

lemma row_term_unparsed: "\<not> parses mkDate r \<Longrightarrow> row_term mkDate r = NaN"
  by (cases "date_in mkDate r"; cases "date_out mkDate r")
    (simp_all add: parses_def row_term_def num_sub_def)

lemma foldl_num_add_NaN: "foldl num_add NaN xs = NaN"
  by (induction xs) simp_all

lemma foldl_num_add_poisoned: "NaN \<in> set xs \<Longrightarrow> foldl num_add t xs = NaN"
proof (induction xs arbitrary: t)
  case Nil
  then show ?case by simp
next
  case (Cons x xs)
  show ?case
  proof (cases "x = NaN")
    case True
    then show ?thesis by (simp add: num_add_NaN foldl_num_add_NaN)
  next
    case False
    with Cons show ?thesis by simp
  qed
qed

lemma foldl_add_hours_unparsed:
  assumes "r \<in> set rs" and "both_present r" and "\<not> parses mkDate r"
  shows "foldl (add_hours mkDate) t rs = NaN"
proof -
  from assms(1,2) have "row_term mkDate r \<in> set (map (row_term mkDate) (filter both_present rs))"
    by simp
  with assms(3) have "NaN \<in> set (map (row_term mkDate) (filter both_present rs))"
    by (simp add: row_term_unparsed)
  then show ?thesis
    unfolding foldl_add_hours by (rule foldl_num_add_poisoned)
qed

lemma totalHours_skip:
  "\<not> both_present r \<Longrightarrow> totalHours mkDate (xs @ r # ys) = totalHours mkDate (xs @ ys)"
  by (simp add: totalHours_def add_hours_term)

lemma totalHours_date:
  "totalHours mkDate (map (s_date_update f) rs) = totalHours mkDate rs"
proof -
  have "add_hours mkDate t (s_date_update f r) = add_hours mkDate t r" for t r
    by (simp add: add_hours_def)
  then have "foldl (add_hours mkDate) t (map (s_date_update f) rs) = foldl (add_hours mkDate) t rs" for t
    by (induction rs arbitrary: t) simp_all
  then show ?thesis by (simp add: totalHours_def)
qed

lemma get_stats_hours:
  "stat_hours (get_stats mkDate st) = math_round (totalHours mkDate (getStaff st))"
  by (simp add: get_stats_def computeStats_def)

subsection \<open>Rows of whole hours\<close>

lemma new_Date_range: "new_Date mkDate str = Some t \<Longrightarrow> \<bar>t\<bar> \<le> 8640000000000000"
  by (auto simp: new_Date_def split: option.splits if_splits)

lemma row_term_whole:
  assumes "whole_hours mkDate r"
  shows "\<exists>n::nat. row_term mkDate r = Num (of_nat n) \<and> exact_hours mkDate r = of_nat n"
proof -
  from assms obtain tin tout where tin: "date_in mkDate r = Some tin"
    and tout: "date_out mkDate r = Some tout" and whole: "(tout - tin) mod 3600000 = 0"
    by (auto simp: whole_hours_def split: option.splits)
  have range: "\<bar>tin\<bar> \<le> 8640000000000000" "\<bar>tout\<bar> \<le> 8640000000000000"
    using tin tout by (auto simp: date_in_def date_out_def dest: new_Date_range)
  define k where "k = (tout - tin) div 3600000"
  have "(tout - tin) div 3600000 * 3600000 + (tout - tin) mod 3600000 = tout - tin"
    by (rule div_mult_mod_eq)
  with whole have d: "tout - tin = 2 * (1800000 * k)"
    unfolding k_def by simp
  from d range have "\<bar>1800000 * k\<bar> \<le> 8640000000000000" by linarith
  then have k_small: "\<bar>1800000 * k\<bar> \<le> 2 ^ 53" "\<bar>k\<bar> \<le> 2 ^ 53" by simp_all
  have "(of_int tout :: rat) + - of_int tin = of_int (tout - tin)" by simp
  also have "\<dots> = of_int (2 * (1800000 * k))" by (simp only: d)
  finally have diff: "(of_int tout :: rat) + - of_int tin = of_int (2 * (1800000 * k))" .
  have sub: "num_sub (getTime (date_out mkDate r)) (getTime (date_in mkDate r)) =
      Num (of_int (2 * (1800000 * k)))"
    unfolding tin tout num_sub_def getTime.simps num_neg.simps num_add.simps diff
    using k_small(1) by (rule round64_int_twice)
  have "(of_int (2 * (1800000 * k)) :: rat) / (1000 * 60 * 60) = of_int k" by simp
  then have "hours_of_ms (Num (of_int (2 * (1800000 * k)))) = round64 (of_int k)"
    by (simp only: hours_of_ms.simps)
  also have "\<dots> = Num (of_int k)" using k_small(2) by (rule round64_int)
  finally have handler: "row_term mkDate r = Num (max 0 (of_int k))"
    by (simp add: row_term_def sub)
  have "exact_hours mkDate r = max 0 ((of_int tout - of_int tin) / 3600000)"
    by (simp add: exact_hours_def tin tout)
  also have "(of_int tout - of_int tin :: rat) = of_int (2 * (1800000 * k))"
    using diff by simp
  also have "(of_int (2 * (1800000 * k)) :: rat) / 3600000 = of_int k" by simp
  finally have exact: "exact_hours mkDate r = max 0 (of_int k)" .
  have "(max 0 (of_int k) :: rat) = of_nat (nat (max 0 k))" by (simp add: max_def)
  with handler exact have "row_term mkDate r = Num (of_nat (nat (max 0 k))) \<and>
      exact_hours mkDate r = of_nat (nat (max 0 k))"
    by simp
  then show ?thesis by (rule exI)
qed

lemma foldl_num_add_nat:
  assumes "\<forall>x\<in>set xs. \<exists>n::nat. f x = Num (of_nat n) \<and> g x = of_nat n"
    and "of_nat a + sum_list (map g xs) \<le> (2 ^ 53 :: rat)"
  shows "foldl num_add (Num (of_nat a)) (map f xs) = Num (of_nat a + sum_list (map g xs))"
  using assms
proof (induction xs arbitrary: a)
  case Nil
  then show ?case by simp
next
  case (Cons x xs)
  from Cons.prems(1) obtain n :: nat where fx: "f x = Num (of_nat n)" and gx: "g x = of_nat n"
    by auto
  have nonneg: "0 \<le> sum_list (map g xs)"
  proof (rule sum_list_nonneg)
    fix y assume "y \<in> set (map g xs)"
    with Cons.prems(1) show "0 \<le> y" by auto
  qed
  from Cons.prems(2) gx have total: "of_nat (a + n) + sum_list (map g xs) \<le> (2 ^ 53 :: rat)"
    by (simp add: add.assoc)
  with nonneg have "(of_nat (a + n) :: rat) \<le> of_nat (2 ^ 53)" by simp
  then have "a + n \<le> 2 ^ 53" by (simp only: of_nat_le_iff)
  then have "round64 (of_nat (a + n) * 2 ^ 0) = Num (of_nat (a + n) * 2 ^ 0)"
    by (rule round64_nat_shift) simp
  then have step: "num_add (Num (of_nat a)) (f x) = Num (of_nat (a + n))"
    by (simp add: fx)
  from Cons.prems(1) have rest: "\<forall>x\<in>set xs. \<exists>n::nat. f x = Num (of_nat n) \<and> g x = of_nat n"
    by simp
  from Cons.IH [OF rest total] step gx show ?case by (simp add: add.assoc)
qed

lemma math_round_nat: "math_round (Num (of_nat n)) = Num (of_nat n)"
proof -
  have "\<lfloor>(of_nat n :: rat) + 1 / 2\<rfloor> = int n" by (simp add: floor_eq_iff)
  then show ?thesis by simp
qed

lemma sum_list_nat:
  "\<forall>x\<in>set xs. \<exists>n::nat. g x = (of_nat n :: rat) \<Longrightarrow>
   \<exists>m::nat. sum_list (map g xs) = of_nat m"
proof (induction xs)
  case Nil
  show ?case by simp
next
  case (Cons x xs)
  then obtain n m :: nat where "g x = of_nat n" "sum_list (map g xs) = of_nat m" by auto
  then have "sum_list (map g (x # xs)) = of_nat (n + m)" by simp
  then show ?case by blast
qed

lemma hours_whole:
  assumes whole: "\<forall>r\<in>set ss. both_present r \<longrightarrow> whole_hours mkDate r"
    and small: "(\<Sum>r\<leftarrow>filter both_present ss. exact_hours mkDate r) \<le> 2 ^ 53"
  shows "stat_hours (computeStats mkDate vs gs ss) =
         Num (of_int \<lfloor>(\<Sum>r\<leftarrow>filter both_present ss. exact_hours mkDate r) + 1 / 2\<rfloor>)"
proof -
  let ?rows = "filter both_present ss"
  have each: "\<forall>r\<in>set ?rows. \<exists>n::nat. row_term mkDate r = Num (of_nat n) \<and>
      exact_hours mkDate r = of_nat n"
    using whole by (auto intro: row_term_whole)
  then have "\<forall>r\<in>set ?rows. \<exists>n::nat. exact_hours mkDate r = of_nat n" by blast
  then obtain m :: nat where m: "sum_list (map (exact_hours mkDate) ?rows) = of_nat m"
    using sum_list_nat [of ?rows "exact_hours mkDate"] by blast
  from small have bound: "of_nat 0 + sum_list (map (exact_hours mkDate) ?rows) \<le> (2 ^ 53 :: rat)"
    by simp
  have "foldl num_add (Num (of_nat 0)) (map (row_term mkDate) ?rows) =
      Num (of_nat 0 + sum_list (map (exact_hours mkDate) ?rows))"
    using foldl_num_add_nat [of ?rows "row_term mkDate" "exact_hours mkDate" 0, OF each bound] .
  then have "totalHours mkDate ss = Num (of_nat m)"
    by (simp add: totalHours_def foldl_add_hours m)
  then have "stat_hours (computeStats mkDate vs gs ss) = Num (of_nat m)"
    by (simp only: computeStats_def math_round_nat Stats.simps)
  moreover have "\<lfloor>(of_nat m :: rat) + 1 / 2\<rfloor> = int m" by (simp add: floor_eq_iff)
  ultimately show ?thesis by (simp add: m)
qed

subsection \<open>The example rows\<close>

lemma round64_7_10: "round64 (7 / 10) = Num (3152519739159347 / 4503599627370496)"
proof -
  have "round_half_even ((7 / 10) / 2 powi (- 1 - 52)) = 6305039478318694"
    by (rule round_half_even_near) simp_all
  then have "round64 (7 / 10) = Num (of_int 6305039478318694 * 2 powi (- 1 - 52))"
    by (intro round64_normal) simp_all
  then show ?thesis by simp
qed

lemma round64_7_5: "round64 (7 / 5) = Num (3152519739159347 / 2251799813685248)"
proof -
  have "round_half_even ((7 / 5) / 2 powi (0 - 52)) = 6305039478318694"
    by (rule round_half_even_near) simp_all
  then have "round64 (7 / 5) = Num (of_int 6305039478318694 * 2 powi (0 - 52))"
    by (intro round64_normal) simp_all
  then show ?thesis by simp
qed

lemma round64_7_2: "round64 (7 / 2) = Num (7 / 2)"
  by (rule round64_exact [where e = 1 and m = 7881299347898368]) simp_all

lemma sum_first: "round64 (3152519739159347 / 4503599627370496) =
    Num (3152519739159347 / 4503599627370496)"
  by (rule round64_exact [where e = "- 1" and m = 6305039478318694]) simp_all

lemma sum_second:
  "round64 (9457559217478041 / 4503599627370496) = Num (1182194902184755 / 562949953421312)"
proof -
  have "round_half_even ((9457559217478041 / 4503599627370496) / 2 powi (1 - 52)) =
      4728779608739020"
    by (rule round_half_even_tie) simp_all
  then have "round64 (9457559217478041 / 4503599627370496) =
      Num (of_int 4728779608739020 * 2 powi (1 - 52))"
    by (intro round64_normal) simp_all
  then show ?thesis by simp
qed

lemma sum_third:
  "round64 (7881299347898367 / 2251799813685248) = Num (7881299347898367 / 2251799813685248)"
  by (rule round64_exact [where e = 1 and m = 7881299347898367]) simp_all

lemma round64_ms:
  "round64 2520000 = Num 2520000"
  "round64 5040000 = Num 5040000"
  "round64 12600000 = Num 12600000"
  using round64_int [of 2520000] round64_int [of 5040000] round64_int [of 12600000]
  by simp_all

lemma term_42: "row_term Date_en_US (shift (Some ''9:00:00 AM'') (Some ''9:42:00 AM'')) =
    Num (3152519739159347 / 4503599627370496)"
  by (simp add: row_term_def date_in_def date_out_def shift_def Dates num_sub_def
      round64_ms round64_7_10)

lemma term_84: "row_term Date_en_US (shift (Some ''9:00:00 AM'') (Some ''10:24:00 AM'')) =
    Num (3152519739159347 / 2251799813685248)"
  by (simp add: row_term_def date_in_def date_out_def shift_def Dates num_sub_def
      round64_ms round64_7_5)

lemma term_210: "row_term Date_en_US (shift (Some ''9:00:00 AM'') (Some ''12:30:00 PM'')) =
    Num (7 / 2)"
  by (simp add: row_term_def date_in_def date_out_def shift_def Dates num_sub_def
      round64_ms round64_7_2)

lemma present_shift: "both_present (shift (Some (a # as)) (Some (b # bs)))"
  by (simp add: both_present_def shift_def)

lemma total_42_84_84:
  "totalHours Date_en_US
     [shift (Some ''9:00:00 AM'') (Some ''9:42:00 AM''),
      shift (Some ''9:00:00 AM'') (Some ''10:24:00 AM''),
      shift (Some ''9:00:00 AM'') (Some ''10:24:00 AM'')] =
   Num (7881299347898367 / 2251799813685248)"
  by (simp add: totalHours_def add_hours_term present_shift term_42 term_84
      sum_first sum_second sum_third)

lemma total_210:
  "totalHours Date_en_US [shift (Some ''9:00:00 AM'') (Some ''12:30:00 PM'')] = Num (7 / 2)"
  by (simp add: totalHours_def add_hours_term present_shift term_210 round64_7_2)

lemma exact_42: "exact_hours Date_en_US (shift (Some ''9:00:00 AM'') (Some ''9:42:00 AM'')) = 7 / 10"
  by (simp add: exact_hours_def date_in_def date_out_def shift_def Dates)
lemma exact_84: "exact_hours Date_en_US (shift (Some ''9:00:00 AM'') (Some ''10:24:00 AM'')) = 7 / 5"
  by (simp add: exact_hours_def date_in_def date_out_def shift_def Dates)
lemma exact_210: "exact_hours Date_en_US (shift (Some ''9:00:00 AM'') (Some ''12:30:00 PM'')) = 7 / 2"
  by (simp add: exact_hours_def date_in_def date_out_def shift_def Dates)
lemma exact_day: "exact_hours Date_en_US (shift (Some ''9:00:00 AM'') (Some ''5:00:00 PM'')) = 8"
  by (simp add: exact_hours_def date_in_def date_out_def shift_def Dates)
lemma exact_night: "exact_hours Date_en_US (shift (Some ''5:00:00 PM'') (Some ''9:00:00 AM'')) = 0"
  by (simp add: exact_hours_def date_in_def date_out_def shift_def Dates)

lemma whole_day: "whole_hours Date_en_US (shift (Some ''9:00:00 AM'') (Some ''5:00:00 PM''))"
  by (simp add: whole_hours_def date_in_def date_out_def shift_def Dates)
lemma whole_night: "whole_hours Date_en_US (shift (Some ''5:00:00 PM'') (Some ''9:00:00 AM''))"
  by (simp add: whole_hours_def date_in_def date_out_def shift_def Dates)

lemma absent_shift: "\<not> both_present (shift tin None)" "\<not> both_present (shift None tout)"
  by (simp_all add: both_present_def shift_def)

lemma parses_examples:
  "parses Date_en_US (shift (Some ''9:00:00 AM'') (Some ''5:00:00 PM''))"
  "parses Date_en_US (shift (Some ''9:00:00 AM'') (Some ''9:42:00 AM''))"
  "parses Date_en_US (shift (Some ''9:00:00 AM'') (Some ''10:24:00 AM''))"
  "parses Date_en_US (shift (Some ''9:00:00 AM'') (Some ''12:30:00 PM''))"
  "\<not> parses Date_en_US (shift (Some ''9:00:00 AM'') (Some ''garbage''))"
  by (simp_all add: parses_def date_in_def date_out_def shift_def Dates)

subsection \<open>The hours figure\<close>

text \<open>
  Claim C1, as the code has it. For every list of staff rows the \<open>hours\<close> of the
  statistics is \<open>Math.round\<close> of the sum, accumulated from \<open>0\<close> in row order in
  binary64 arithmetic, over exactly the rows in which \<open>timeIn\<close> and \<open>timeOut\<close>
  are both present (not \<open>null\<close> and not empty), of the difference of the two parsed
  times in hours, a binary64 quotient, clamped at \<open>0\<close>; the term is \<open>NaN\<close> when a
  time does not parse. When each of these rows parses and lasts a whole number of hours
  (and the sum stays within \<open>2^53\<close>), no operation rounds and the figure is the exact
  sum of the clamped durations, rounded to the nearest integer. The \<open>date\<close> column of
  a row plays no part, and a row lacking one of the two times can be dropped without
  changing the figure. With the reference constructor, a single row from 9:00:00 AM to
  5:00:00 PM gives 8, one from 5:00:00 PM to 9:00:00 AM gives 0, and one without
  \<open>timeOut\<close> gives 0.
\<close>

theorem C1_hours_binary64_sum:
  "stat_hours (computeStats mkDate vs gs ss) =
     math_round (foldl num_add (Num 0) (map (row_term mkDate) (filter both_present ss)))
   \<and> ((\<forall>r\<in>set ss. both_present r \<longrightarrow> whole_hours mkDate r) \<and>
        (\<Sum>r\<leftarrow>filter both_present ss. exact_hours mkDate r) \<le> 2 ^ 53 \<longrightarrow>
      stat_hours (computeStats mkDate vs gs ss) =
        Num (of_int \<lfloor>(\<Sum>r\<leftarrow>filter both_present ss. exact_hours mkDate r) + 1 / 2\<rfloor>))
   \<and> stat_hours (computeStats mkDate vs gs (map (s_date_update f) ss)) =
       stat_hours (computeStats mkDate vs gs ss)
   \<and> (\<not> both_present r \<longrightarrow>
        stat_hours (computeStats mkDate vs gs (xs @ r # ys)) =
        stat_hours (computeStats mkDate vs gs (xs @ ys)))
   \<and> stat_hours (computeStats Date_en_US vs gs
        [shift (Some ''9:00:00 AM'') (Some ''5:00:00 PM'')]) = Num 8
   \<and> stat_hours (computeStats Date_en_US vs gs
        [shift (Some ''5:00:00 PM'') (Some ''9:00:00 AM'')]) = Num 0
   \<and> stat_hours (computeStats Date_en_US vs gs [shift (Some ''9:00:00 AM'') None]) = Num 0"
proof -
  have general: "stat_hours (computeStats mkDate vs gs ss) =
     math_round (foldl num_add (Num 0) (map (row_term mkDate) (filter both_present ss)))"
    by (simp add: computeStats_def totalHours_def foldl_add_hours)
  have whole: "(\<forall>r\<in>set ss. both_present r \<longrightarrow> whole_hours mkDate r) \<and>
        (\<Sum>r\<leftarrow>filter both_present ss. exact_hours mkDate r) \<le> 2 ^ 53 \<longrightarrow>
      stat_hours (computeStats mkDate vs gs ss) =
        Num (of_int \<lfloor>(\<Sum>r\<leftarrow>filter both_present ss. exact_hours mkDate r) + 1 / 2\<rfloor>)"
    using hours_whole [of ss mkDate vs gs] by blast
  have date: "stat_hours (computeStats mkDate vs gs (map (s_date_update f) ss)) =
       stat_hours (computeStats mkDate vs gs ss)"
    by (simp add: computeStats_def totalHours_date)
  have skip: "\<not> both_present r \<longrightarrow>
        stat_hours (computeStats mkDate vs gs (xs @ r # ys)) =
        stat_hours (computeStats mkDate vs gs (xs @ ys))"
    by (simp add: computeStats_def totalHours_skip)
  have day: "stat_hours (computeStats Date_en_US vs gs
        [shift (Some ''9:00:00 AM'') (Some ''5:00:00 PM'')]) = Num 8"
    using hours_whole [of "[shift (Some ''9:00:00 AM'') (Some ''5:00:00 PM'')]" Date_en_US vs gs]
    by (simp add: whole_day present_shift exact_day floor_eq_iff)
  have night: "stat_hours (computeStats Date_en_US vs gs
        [shift (Some ''5:00:00 PM'') (Some ''9:00:00 AM'')]) = Num 0"
    using hours_whole [of "[shift (Some ''5:00:00 PM'') (Some ''9:00:00 AM'')]" Date_en_US vs gs]
    by (simp add: whole_night present_shift exact_night floor_eq_iff)
  have missing: "stat_hours (computeStats Date_en_US vs gs [shift (Some ''9:00:00 AM'') None]) = Num 0"
    using hours_whole [of "[shift (Some ''9:00:00 AM'') None]" Date_en_US vs gs]
    by (simp add: absent_shift floor_eq_iff)
  from general whole date skip day night missing show ?thesis by blast
qed

theorem C1_hours_binary64_sum_witness:
  "whole_hours Date_en_US (shift (Some ''9:00:00 AM'') (Some ''5:00:00 PM''))
   \<and> whole_hours Date_en_US (shift (Some ''5:00:00 PM'') (Some ''9:00:00 AM''))
   \<and> \<not> both_present (shift None (Some ''5:00:00 PM''))
   \<and> stat_hours (computeStats Date_en_US [] []
      [shift (Some ''9:00:00 AM'') (Some ''5:00:00 PM''), shift None (Some ''5:00:00 PM''),
       shift (Some ''5:00:00 PM'') (Some ''9:00:00 AM'')]) = Num 8"
proof -
  let ?day = "shift (Some ''9:00:00 AM'') (Some ''5:00:00 PM'')"
  let ?open = "shift None (Some ''5:00:00 PM'')"
  let ?night = "shift (Some ''5:00:00 PM'') (Some ''9:00:00 AM'')"
  have rows: "filter both_present [?day, ?open, ?night] = [?day, ?night]"
    by (simp add: present_shift absent_shift)
  have hyp: "\<forall>r\<in>set [?day, ?open, ?night]. both_present r \<longrightarrow> whole_hours Date_en_US r"
    by (simp add: whole_day whole_night absent_shift)
  have total: "(\<Sum>r\<leftarrow>filter both_present [?day, ?open, ?night]. exact_hours Date_en_US r) = 8"
    unfolding rows by (simp add: exact_day exact_night)
  then have small: "(\<Sum>r\<leftarrow>filter both_present [?day, ?open, ?night]. exact_hours Date_en_US r) \<le> 2 ^ 53"
    by simp
  have "stat_hours (computeStats Date_en_US [] [] [?day, ?open, ?night]) =
      Num (of_int \<lfloor>(\<Sum>r\<leftarrow>filter both_present [?day, ?open, ?night].
                        exact_hours Date_en_US r) + 1 / 2\<rfloor>)"
    using C1_hours_binary64_sum [of Date_en_US "[]" "[]" "[?day, ?open, ?night]"] hyp small
    by blast
  also have "\<dots> = Num 8" unfolding total by (simp add: floor_eq_iff)
  finally show ?thesis by (simp add: whole_day whole_night absent_shift)
qed

text \<open>
  The claim as stated fails. Three rows of 42, 84 and 84 minutes, all parsing, have
  the exact sum 7/2 hours, which rounds to 4; the handler's binary64 sum is just below
  3.5 and it reports 3. One row of 210 minutes has the same exact sum and is reported
  as 4, so the figure is not a function of the exact sum at all.
\<close>

theorem C1_exact_sum_counterexample:
  "parses Date_en_US (shift (Some ''9:00:00 AM'') (Some ''9:42:00 AM''))
   \<and> parses Date_en_US (shift (Some ''9:00:00 AM'') (Some ''10:24:00 AM''))
   \<and> parses Date_en_US (shift (Some ''9:00:00 AM'') (Some ''12:30:00 PM''))
   \<and> (\<Sum>r\<leftarrow>filter both_present
          [shift (Some ''9:00:00 AM'') (Some ''9:42:00 AM''),
           shift (Some ''9:00:00 AM'') (Some ''10:24:00 AM''),
           shift (Some ''9:00:00 AM'') (Some ''10:24:00 AM'')]. exact_hours Date_en_US r) = 7 / 2
   \<and> \<lfloor>(7 / 2 :: rat) + 1 / 2\<rfloor> = 4
   \<and> stat_hours (computeStats Date_en_US [] []
          [shift (Some ''9:00:00 AM'') (Some ''9:42:00 AM''),
           shift (Some ''9:00:00 AM'') (Some ''10:24:00 AM''),
           shift (Some ''9:00:00 AM'') (Some ''10:24:00 AM'')]) = Num 3
   \<and> (\<Sum>r\<leftarrow>filter both_present [shift (Some ''9:00:00 AM'') (Some ''12:30:00 PM'')].
          exact_hours Date_en_US r) = 7 / 2
   \<and> stat_hours (computeStats Date_en_US [] []
          [shift (Some ''9:00:00 AM'') (Some ''12:30:00 PM'')]) = Num 4"
proof -
  have sum3: "(\<Sum>r\<leftarrow>filter both_present
          [shift (Some ''9:00:00 AM'') (Some ''9:42:00 AM''),
           shift (Some ''9:00:00 AM'') (Some ''10:24:00 AM''),
           shift (Some ''9:00:00 AM'') (Some ''10:24:00 AM'')]. exact_hours Date_en_US r) = 7 / 2"
    by (simp add: present_shift exact_42 exact_84)
  have sum1: "(\<Sum>r\<leftarrow>filter both_present [shift (Some ''9:00:00 AM'') (Some ''12:30:00 PM'')].
          exact_hours Date_en_US r) = 7 / 2"
    by (simp add: present_shift exact_210)
  have "math_round (Num (7881299347898367 / 2251799813685248)) = Num 3"
    by (simp add: floor_eq_iff)
  then have three: "stat_hours (computeStats Date_en_US [] []
          [shift (Some ''9:00:00 AM'') (Some ''9:42:00 AM''),
           shift (Some ''9:00:00 AM'') (Some ''10:24:00 AM''),
           shift (Some ''9:00:00 AM'') (Some ''10:24:00 AM'')]) = Num 3"
    by (simp only: computeStats_def total_42_84_84 Stats.simps)
  have "math_round (Num (7 / 2)) = Num 4" by (simp add: floor_eq_iff)
  then have four: "stat_hours (computeStats Date_en_US [] []
          [shift (Some ''9:00:00 AM'') (Some ''12:30:00 PM'')]) = Num 4"
    by (simp only: computeStats_def total_210 Stats.simps)
  have up: "\<lfloor>(7 / 2 :: rat) + 1 / 2\<rfloor> = 4" by (simp add: floor_eq_iff)
  from sum3 sum1 three four up parses_examples(2,3,4) show ?thesis by blast
qed

text \<open>
  Claim C2, as the code has it. The route raises no exception on a row whose two
  times are present while one of them does not parse, and it still reports the counts;
  but the row does not count as \<open>0\<close>: the time value of an Invalid Date is \<open>NaN\<close>,
  \<open>Math.max(0, NaN)\<close> is \<open>NaN\<close>, and from that row on the running total is
  \<open>NaN\<close>, whatever the other rows hold. The reported \<open>hours\<close> is \<open>NaN\<close>.
\<close>

theorem C2_unparsable_poisons_total:
  "r \<in> set ss \<and> both_present r \<and> \<not> parses mkDate r \<longrightarrow>
     stat_hours (computeStats mkDate vs gs ss) = NaN
     \<and> stat_volunteers (computeStats mkDate vs gs ss) = length vs
     \<and> stat_guests (computeStats mkDate vs gs ss) = length gs"
  by (auto simp: computeStats_def totalHours_def foldl_add_hours_unparsed)

theorem C2_unparsable_poisons_total_witness:
  "both_present (shift (Some ''9:00:00 AM'') (Some ''garbage''))
   \<and> \<not> parses Date_en_US (shift (Some ''9:00:00 AM'') (Some ''garbage''))
   \<and> stat_hours (computeStats Date_en_US [] []
        [shift (Some ''9:00:00 AM'') (Some ''5:00:00 PM''),
         shift (Some ''9:00:00 AM'') (Some ''garbage'')]) = NaN"
  using C2_unparsable_poisons_total [of "shift (Some ''9:00:00 AM'') (Some ''garbage'')"
      "[shift (Some ''9:00:00 AM'') (Some ''5:00:00 PM''),
        shift (Some ''9:00:00 AM'') (Some ''garbage'')]" Date_en_US "[]" "[]"]
    parses_examples(5) present_shift [of "CHR ''9''" "'':00:00 AM''" "CHR ''g''" "''arbage''"]
  by simp

text \<open>
  The claim as stated fails: a row from 9:00:00 AM to \<open>garbage\<close> placed before a row
  from 9:00:00 AM to 5:00:00 PM turns the total of 8 into \<open>NaN\<close>.
\<close>

theorem C2_skip_counterexample:
  "both_present (shift (Some ''9:00:00 AM'') (Some ''garbage''))
   \<and> new_Date Date_en_US (''2024-01-01 '' @ ''garbage'') = None
   \<and> stat_hours (computeStats Date_en_US [] []
        [shift (Some ''9:00:00 AM'') (Some ''garbage''),
         shift (Some ''9:00:00 AM'') (Some ''5:00:00 PM'')]) = NaN
   \<and> stat_hours (computeStats Date_en_US [] []
        [shift (Some ''9:00:00 AM'') (Some ''5:00:00 PM'')]) = Num 8"
proof -
  have bad: "row_term Date_en_US (shift (Some ''9:00:00 AM'') (Some ''garbage'')) = NaN"
    using parses_examples(5) by (rule row_term_unparsed)
  have "totalHours Date_en_US
        [shift (Some ''9:00:00 AM'') (Some ''garbage''),
         shift (Some ''9:00:00 AM'') (Some ''5:00:00 PM'')] = NaN"
    by (simp add: totalHours_def add_hours_term present_shift bad)
  then have poisoned: "stat_hours (computeStats Date_en_US [] []
        [shift (Some ''9:00:00 AM'') (Some ''garbage''),
         shift (Some ''9:00:00 AM'') (Some ''5:00:00 PM'')]) = NaN"
    by (simp add: computeStats_def)
  have clean: "stat_hours (computeStats Date_en_US [] []
        [shift (Some ''9:00:00 AM'') (Some ''5:00:00 PM'')]) = Num 8"
    using hours_whole [of "[shift (Some ''9:00:00 AM'') (Some ''5:00:00 PM'')]" Date_en_US "[]" "[]"]
    by (simp add: whole_day present_shift exact_day floor_eq_iff)
  from poisoned clean show ?thesis by (simp add: present_shift Date_garbage)
qed

section \<open>Properties of the Map\<close>

lemma map_set_values: "v \<in> set (map_values (map_set k v m))"
  by (induction k v m rule: map_set.induct) (simp_all add: map_values_def)

lemma map_set_keys: "set (map_keys (map_set k v m)) = insert k (set (map_keys m))"
  by (induction k v m rule: map_set.induct) (auto simp: map_keys_def)

lemma map_set_distinct: "distinct (map_keys m) \<Longrightarrow> distinct (map_keys (map_set k v m))"
proof (induction m)
  case Nil
  then show ?case by (simp add: map_keys_def)
next
  case (Cons e m)
  obtain k' v' where e: "e = (k', v')" by (cases e)
  from Cons have d: "distinct (map_keys (map_set k v m))" by (simp add: map_keys_def)
  show ?case
  proof (cases "k' = k")
    case True
    with Cons.prems e show ?thesis by (simp add: map_keys_def)
  next
    case False
    from Cons.prems e have "k' \<notin> set (map_keys m)" by (simp add: map_keys_def)
    with False have "k' \<notin> set (map_keys (map_set k v m))" by (simp add: map_set_keys)
    with d e False show ?thesis by (simp add: map_keys_def)
  qed
qed

lemma map_delete_found: "fst (map_delete k m) \<longleftrightarrow> k \<in> set (map_keys m)"
  by (induction k m rule: map_delete.induct) (auto simp: map_keys_def)

lemma map_delete_filter:
  "distinct (map_keys m) \<Longrightarrow> snd (map_delete k m) = filter (\<lambda>e. fst e \<noteq> k) m"
proof (induction m)
  case Nil
  then show ?case by simp
next
  case (Cons e m)
  obtain k' v' where e: "e = (k', v')" by (cases e)
  show ?case
  proof (cases "k' = k")
    case True
    with Cons.prems e have "k \<notin> fst ` set m" by (simp add: map_keys_def)
    then have "filter (\<lambda>e. fst e \<noteq> k) m = m" by (auto simp: filter_id_conv)
    with True e show ?thesis by simp
  next
    case False
    with Cons e show ?thesis by (simp add: map_keys_def)
  qed
qed

lemma map_delete_keys_subset: "set (map_keys (snd (map_delete k m))) \<subseteq> set (map_keys m)"
  by (induction k m rule: map_delete.induct) (auto simp: map_keys_def)

lemma map_delete_distinct:
  "distinct (map_keys m) \<Longrightarrow> distinct (map_keys (snd (map_delete k m)))"
  by (simp add: map_delete_filter map_keys_def distinct_map_filter)

lemma map_delete_length:
  "length (snd (map_delete k m)) + (if fst (map_delete k m) then 1 else 0) = length m"
  by (induction k m rule: map_delete.induct) auto

section \<open>Properties of deletion\<close>

lemma entries_keys:
  "map fst (entries ''volunteer'' st) = map_keys (volunteers st)"
  "map fst (entries ''guest'' st) = map_keys (guests st)"
  "map fst (entries ''staff'' st) = map_keys (staff st)"
  by (simp_all add: entries_def map_keys_def comp_def case_prod_unfold)

lemma filter_entries:
  "filter (\<lambda>e. fst e \<noteq> k) (map (\<lambda>p. (fst p, f (snd p))) m) =
   map (\<lambda>p. (fst p, f (snd p))) (filter (\<lambda>e. fst e \<noteq> k) m)"
  by (induction m) auto

lemma deletePerson_volunteer:
  assumes "distinct_keys st"
  shows "fst (deletePerson ''volunteer'' i st) = (i \<in> set (map fst (entries ''volunteer'' st)))"
    and "entries ''volunteer'' (snd (deletePerson ''volunteer'' i st)) =
         filter (\<lambda>e. fst e \<noteq> i) (entries ''volunteer'' st)"
    and "guests (snd (deletePerson ''volunteer'' i st)) = guests st"
    and "staff (snd (deletePerson ''volunteer'' i st)) = staff st"
  using assms
  by (simp_all add: deletePerson_def map_delete_found entries_def map_delete_filter
      distinct_keys_def filter_entries map_keys_def comp_def case_prod_unfold)

lemma deletePerson_guest:
  assumes "distinct_keys st"
  shows "fst (deletePerson ''guest'' i st) = (i \<in> set (map fst (entries ''guest'' st)))"
    and "entries ''guest'' (snd (deletePerson ''guest'' i st)) =
         filter (\<lambda>e. fst e \<noteq> i) (entries ''guest'' st)"
    and "volunteers (snd (deletePerson ''guest'' i st)) = volunteers st"
    and "staff (snd (deletePerson ''guest'' i st)) = staff st"
  using assms
  by (simp_all add: deletePerson_def map_delete_found entries_def map_delete_filter
      distinct_keys_def filter_entries map_keys_def comp_def case_prod_unfold)

lemma deletePerson_staff:
  assumes "distinct_keys st"
  shows "fst (deletePerson ''staff'' i st) = (i \<in> set (map fst (entries ''staff'' st)))"
    and "entries ''staff'' (snd (deletePerson ''staff'' i st)) =
         filter (\<lambda>e. fst e \<noteq> i) (entries ''staff'' st)"
    and "volunteers (snd (deletePerson ''staff'' i st)) = volunteers st"
    and "guests (snd (deletePerson ''staff'' i st)) = guests st"
  using assms
  by (simp_all add: deletePerson_def map_delete_found entries_def map_delete_filter
      distinct_keys_def filter_entries map_keys_def comp_def case_prod_unfold)

lemma deletePerson_counters:
  "currentVolunteerId (snd (deletePerson kind i st)) = currentVolunteerId st"
  "currentGuestId (snd (deletePerson kind i st)) = currentGuestId st"
  "currentStaffId (snd (deletePerson kind i st)) = currentStaffId st"
  by (simp_all add: deletePerson_def)

lemma deletePerson_length:
  "length (entries kind (snd (deletePerson kind i st))) +
     (if fst (deletePerson kind i st) then 1 else 0) = length (entries kind st)"
  using map_delete_length [of i "volunteers st"] map_delete_length [of i "guests st"]
    map_delete_length [of i "staff st"]
  by (simp add: deletePerson_def entries_def)

lemma deletePerson_other:
  "kind' \<noteq> kind \<Longrightarrow> entries kind' (snd (deletePerson kind i st)) = entries kind' st"
  by (auto simp: deletePerson_def entries_def)

lemma deletePerson_distinct_keys:
  "distinct_keys st \<Longrightarrow> distinct_keys (snd (deletePerson kind i st))"
  by (simp add: deletePerson_def distinct_keys_def map_delete_distinct)

lemma exec_distinct_keys: "distinct_keys st \<Longrightarrow> distinct_keys (snd (exec x st))"
proof (cases x)
  case (DeletePerson kind i)
  assume "distinct_keys st"
  with DeletePerson show ?thesis by (simp add: deletePerson_distinct_keys)
next
  case (CreateVolunteer i)
  assume "distinct_keys st"
  with CreateVolunteer show ?thesis
    by (simp add: createVolunteer_def Let_def distinct_keys_def map_set_distinct)
next
  case (CreateGuest i)
  assume "distinct_keys st"
  with CreateGuest show ?thesis
    by (simp add: createGuest_def Let_def distinct_keys_def map_set_distinct)
next
  case (CreateStaff i)
  assume "distinct_keys st"
  with CreateStaff show ?thesis
    by (simp add: createStaff_def Let_def distinct_keys_def map_set_distinct)
qed

text \<open>Every state reached from a new store keeps each key once.\<close>

lemma final_distinct_keys: "distinct_keys st \<Longrightarrow> distinct_keys (final ops st)"
  by (induction ops arbitrary: st) (simp_all add: exec_distinct_keys)

lemma reachable_distinct_keys: "distinct_keys (final ops MemStorage_new)"
  by (rule final_distinct_keys) (simp add: distinct_keys_def MemStorage_new_def map_keys_def)

lemma demo_store_eq:
  "demo_store =
     \<lparr>volunteers = [(1, \<lparr>v_id = 1, v_name = ''Bob'', v_date = ''7/22/2025'',
                         v_timeIn = ''3:45:12 PM'', v_timeOut = None, v_area = ''garden'',
                         v_activities = ''weeding''\<rparr>)],
      guests = [(1, \<lparr>g_id = 1, g_name = ''Ann'', g_email = ''ann@example.org'',
                     g_phone = None, g_reason = ''historic'', g_joinNewsletter = None,
                     g_brideName = None, g_groomName = None, g_tourGuide = None,
                     g_date = ''7/22/2025''\<rparr>)],
      staff = [(1, \<lparr>s_id = 1, s_name = ''Pat'', s_date = ''7/22/2025'',
                    s_timeIn = Some ''9:00:00 AM'', s_timeOut = None, s_notes = None\<rparr>)],
      currentVolunteerId = 2, currentGuestId = 2, currentStaffId = 2\<rparr>"
  by (simp add: demo_store_def MemStorage_new_def createVolunteer_def createGuest_def
      createStaff_def checkin_def guest_minimal_def clock_in_def Let_def)

lemma demo_store_distinct: "distinct_keys demo_store"
  by (simp add: demo_store_eq distinct_keys_def map_keys_def)

text \<open>
  Claim C4. For each of the three kinds and every integer identity, in every state
  of the stores (a Map holds a key once), \<open>deletePerson\<close> answers true exactly when
  the store of that kind holds a row under the identity; afterwards that store holds the
  same rows in the same order except the one under the identity, so at most one row is
  gone, and the stores of the other kinds are unchanged. In particular, deleting from
  \<open>staff\<close> leaves the volunteer and guest stores as they were.
\<close>

theorem C4_deletePerson_scoped:
  "kind \<in> {''volunteer'', ''guest'', ''staff''} \<and> distinct_keys st \<longrightarrow>
     fst (deletePerson kind i st) = (i \<in> set (map fst (entries kind st)))
     \<and> entries kind (snd (deletePerson kind i st)) =
         filter (\<lambda>e. fst e \<noteq> i) (entries kind st)
     \<and> length (entries kind (snd (deletePerson kind i st))) +
         (if fst (deletePerson kind i st) then 1 else 0) = length (entries kind st)
     \<and> (\<forall>other. other \<noteq> kind \<longrightarrow>
           entries other (snd (deletePerson kind i st)) = entries other st)
     \<and> volunteers (snd (deletePerson ''staff'' i st)) = volunteers st
     \<and> guests (snd (deletePerson ''staff'' i st)) = guests st"
proof (intro impI, elim conjE)
  assume kind: "kind \<in> {''volunteer'', ''guest'', ''staff''}" and dk: "distinct_keys st"
  have found: "fst (deletePerson kind i st) = (i \<in> set (map fst (entries kind st)))"
    using kind deletePerson_volunteer(1) [OF dk] deletePerson_guest(1) [OF dk]
      deletePerson_staff(1) [OF dk] by blast
  have rest: "entries kind (snd (deletePerson kind i st)) =
         filter (\<lambda>e. fst e \<noteq> i) (entries kind st)"
    using kind deletePerson_volunteer(2) [OF dk] deletePerson_guest(2) [OF dk]
      deletePerson_staff(2) [OF dk] by blast
  have others: "\<forall>other. other \<noteq> kind \<longrightarrow>
           entries other (snd (deletePerson kind i st)) = entries other st"
    by (simp add: deletePerson_other)
  have frame: "volunteers (snd (deletePerson ''staff'' i st)) = volunteers st"
      "guests (snd (deletePerson ''staff'' i st)) = guests st"
    by (simp_all add: deletePerson_staff [OF dk])
  from found rest others frame deletePerson_length [of kind i st]
  show "fst (deletePerson kind i st) = (i \<in> set (map fst (entries kind st)))
     \<and> entries kind (snd (deletePerson kind i st)) =
         filter (\<lambda>e. fst e \<noteq> i) (entries kind st)
     \<and> length (entries kind (snd (deletePerson kind i st))) +
         (if fst (deletePerson kind i st) then 1 else 0) = length (entries kind st)
     \<and> (\<forall>other. other \<noteq> kind \<longrightarrow>
           entries other (snd (deletePerson kind i st)) = entries other st)
     \<and> volunteers (snd (deletePerson ''staff'' i st)) = volunteers st
     \<and> guests (snd (deletePerson ''staff'' i st)) = guests st"
    by blast
qed

theorem C4_deletePerson_scoped_witness:
  "distinct_keys demo_store
   \<and> map fst (entries ''volunteer'' demo_store) = [1]
   \<and> map fst (entries ''staff'' demo_store) = [1]
   \<and> fst (deletePerson ''staff'' 1 demo_store)
   \<and> entries ''staff'' (snd (deletePerson ''staff'' 1 demo_store)) = []
   \<and> entries ''volunteer'' (snd (deletePerson ''staff'' 1 demo_store)) =
       entries ''volunteer'' demo_store
   \<and> \<not> fst (deletePerson ''staff'' 7 demo_store)"
proof -
  have keys: "map fst (entries ''volunteer'' demo_store) = [1]"
      "map fst (entries ''staff'' demo_store) = [1]"
    by (simp_all add: demo_store_eq entries_def)
  have empty: "filter (\<lambda>e. fst e \<noteq> 1) (entries ''staff'' demo_store) = []"
    by (simp add: demo_store_eq entries_def)
  from C4_deletePerson_scoped [of "''staff''" demo_store 1]
    C4_deletePerson_scoped [of "''staff''" demo_store 7]
    demo_store_distinct keys empty
  show ?thesis by simp
qed

section \<open>Properties of the people view\<close>

lemma push_each_append: "push_each f xs acc = acc @ map f xs"
  by (induction xs arbitrary: acc) simp_all

lemma getAllPeople_concat:
  "getAllPeople st =
     map (\<lambda>v. \<lparr>p_row = VolunteerRow v, p_type = ''volunteer''\<rparr>) (getVolunteers st) @
     map (\<lambda>g. \<lparr>p_row = GuestRow g, p_type = ''guest''\<rparr>) (getGuests st) @
     map (\<lambda>s. \<lparr>p_row = StaffRow s, p_type = ''staff''\<rparr>) (getStaff st)"
  by (simp add: getAllPeople_def push_each_append getVolunteers_def getGuests_def getStaff_def)

text \<open>
  Claim C6. In every state, \<open>getAllPeople\<close> is the volunteer rows tagged
  \<open>volunteer\<close>, then the guest rows tagged \<open>guest\<close>, then the staff rows tagged
  \<open>staff\<close>, each block in the order its store lists them; so its length is the sum
  of the three store sizes, and the tag of every element is the one of the three kind
  strings that names the store its row came from.
\<close>

theorem C6_getAllPeople_blocks:
  "getAllPeople st =
     map (\<lambda>v. \<lparr>p_row = VolunteerRow v, p_type = ''volunteer''\<rparr>) (getVolunteers st) @
     map (\<lambda>g. \<lparr>p_row = GuestRow g, p_type = ''guest''\<rparr>) (getGuests st) @
     map (\<lambda>s. \<lparr>p_row = StaffRow s, p_type = ''staff''\<rparr>) (getStaff st)
   \<and> map p_row (getAllPeople st) =
       map VolunteerRow (getVolunteers st) @ map GuestRow (getGuests st) @
       map StaffRow (getStaff st)
   \<and> length (getAllPeople st) =
       length (getVolunteers st) + length (getGuests st) + length (getStaff st)
   \<and> list_all (\<lambda>p. p_type p = kind_of_row (p_row p)
                    \<and> p_type p \<in> {''volunteer'', ''guest'', ''staff''})
              (getAllPeople st)"
proof -
  have tags: "list_all (\<lambda>p. p_type p = kind_of_row (p_row p)
                    \<and> p_type p \<in> {''volunteer'', ''guest'', ''staff''})
              (getAllPeople st)"
    unfolding getAllPeople_concat list_all_iff by auto
  have rows: "map p_row (getAllPeople st) =
     map VolunteerRow (getVolunteers st) @ map GuestRow (getGuests st) @
     map StaffRow (getStaff st)"
    unfolding getAllPeople_concat by (simp add: comp_def)
  have len: "length (getAllPeople st) =
       length (getVolunteers st) + length (getGuests st) + length (getStaff st)"
    unfolding getAllPeople_concat by simp
  from getAllPeople_concat [of st] rows len tags show ?thesis by blast
qed

theorem C6_getAllPeople_blocks_witness:
  "map p_type (getAllPeople demo_store) = [''volunteer'', ''guest'', ''staff'']
   \<and> length (getAllPeople demo_store) = 3"
proof -
  have "getVolunteers demo_store = map_values (volunteers demo_store)"
      "getGuests demo_store = map_values (guests demo_store)"
      "getStaff demo_store = map_values (staff demo_store)"
    by (simp_all add: getVolunteers_def getGuests_def getStaff_def)
  then have "length (getVolunteers demo_store) = 1" "length (getGuests demo_store) = 1"
      "length (getStaff demo_store) = 1"
    by (simp_all add: demo_store_eq map_values_def)
  with C6_getAllPeople_blocks [of demo_store] show ?thesis
    by (auto simp: length_Suc_conv)
qed

section \<open>Properties of creation\<close>

lemma createVolunteer_row:
  "fst (createVolunteer i st) =
     \<lparr>v_id = currentVolunteerId st, v_name = iv_name i, v_date = iv_date i,
      v_timeIn = iv_timeIn i, v_timeOut = or_null_str (iv_timeOut i), v_area = iv_area i,
      v_activities = iv_activities i\<rparr>"
  by (simp add: createVolunteer_def Let_def)

lemma createVolunteer_state:
  "snd (createVolunteer i st) =
     st\<lparr>currentVolunteerId := currentVolunteerId st + 1,
        volunteers := map_set (currentVolunteerId st) (fst (createVolunteer i st)) (volunteers st)\<rparr>"
  by (simp add: createVolunteer_def Let_def)

lemma createGuest_row:
  "fst (createGuest i st) =
     \<lparr>g_id = currentGuestId st, g_name = ig_name i, g_email = ig_email i,
      g_phone = or_null_str (ig_phone i), g_reason = ig_reason i,
      g_joinNewsletter = or_null_bool (ig_joinNewsletter i),
      g_brideName = or_null_str (ig_brideName i), g_groomName = or_null_str (ig_groomName i),
      g_tourGuide = or_null_str (ig_tourGuide i), g_date = ig_date i\<rparr>"
  by (simp add: createGuest_def Let_def)

lemma createGuest_state:
  "snd (createGuest i st) =
     st\<lparr>currentGuestId := currentGuestId st + 1,
        guests := map_set (currentGuestId st) (fst (createGuest i st)) (guests st)\<rparr>"
  by (simp add: createGuest_def Let_def)

lemma createStaff_row:
  "fst (createStaff i st) =
     \<lparr>s_id = currentStaffId st, s_name = is_name i, s_date = is_date i,
      s_timeIn = or_null_str (is_timeIn i), s_timeOut = or_null_str (is_timeOut i),
      s_notes = or_null_str (is_notes i)\<rparr>"
  by (simp add: createStaff_def Let_def)

lemma createStaff_state:
  "snd (createStaff i st) =
     st\<lparr>currentStaffId := currentStaffId st + 1,
        staff := map_set (currentStaffId st) (fst (createStaff i st)) (staff st)\<rparr>"
  by (simp add: createStaff_def Let_def)

text \<open>
  Claim C9. Creating a volunteer and then listing by the area of the returned record
  (which is the area of the input) gives a list that contains the record, and every
  record of that list has exactly that area; the listing is the filter of all
  volunteers by equality of the area string.
\<close>

theorem C9_create_then_list:
  "fst (createVolunteer inp st) \<in>
     set (getVolunteersByCategory (v_area (fst (createVolunteer inp st)))
           (snd (createVolunteer inp st)))
   \<and> v_area (fst (createVolunteer inp st)) = iv_area inp
   \<and> list_all (\<lambda>v. v_area v = v_area (fst (createVolunteer inp st)))
        (getVolunteersByCategory (v_area (fst (createVolunteer inp st)))
          (snd (createVolunteer inp st)))
   \<and> getVolunteersByCategory category st' =
       filter (\<lambda>v. v_area v = category) (getVolunteers st')"
proof -
  have stored: "fst (createVolunteer inp st) \<in> set (map_values (volunteers (snd (createVolunteer inp st))))"
    by (simp add: createVolunteer_state map_set_values)
  then have listed: "fst (createVolunteer inp st) \<in>
     set (getVolunteersByCategory (v_area (fst (createVolunteer inp st)))
           (snd (createVolunteer inp st)))"
    by (simp add: getVolunteersByCategory_def)
  have area: "v_area (fst (createVolunteer inp st)) = iv_area inp"
    by (simp add: createVolunteer_row)
  have only: "list_all (\<lambda>v. v_area v = v_area (fst (createVolunteer inp st)))
        (getVolunteersByCategory (v_area (fst (createVolunteer inp st)))
          (snd (createVolunteer inp st)))"
    by (simp add: getVolunteersByCategory_def list_all_iff)
  have flt: "getVolunteersByCategory category st' =
       filter (\<lambda>v. v_area v = category) (getVolunteers st')"
    by (simp add: getVolunteersByCategory_def getVolunteers_def)
  from listed area only flt show ?thesis by blast
qed

theorem C9_create_then_list_witness:
  "getVolunteersByCategory ''house'' (snd (createVolunteer (checkin ''Ann'' ''house'') demo_store)) =
     [fst (createVolunteer (checkin ''Ann'' ''house'') demo_store)]
   \<and> map v_area (getVolunteers (snd (createVolunteer (checkin ''Ann'' ''house'') demo_store))) =
       [''garden'', ''house'']"
proof -
  have "getVolunteersByCategory ''house'' (snd (createVolunteer (checkin ''Ann'' ''house'') demo_store)) =
       filter (\<lambda>v. v_area v = ''house'')
         (getVolunteers (snd (createVolunteer (checkin ''Ann'' ''house'') demo_store)))"
    using C9_create_then_list [of "checkin ''Ann'' ''house''" demo_store "''house''"
        "snd (createVolunteer (checkin ''Ann'' ''house'') demo_store)"]
    by blast
  then show ?thesis
    by (simp add: getVolunteers_def map_values_def createVolunteer_state createVolunteer_row
        demo_store_eq checkin_def)
qed

lemma map_get_map_set: "map_get k (map_set k v m) = Some v"
  by (induction k v m rule: map_set.induct) (simp_all add: map_get_def)

lemma stored_guest_created: "stored_guest inp st = Some (fst (createGuest inp st))"
  by (simp add: stored_guest_def createGuest_state map_get_map_set)

text \<open>
  Claim C10. \<open>createGuest\<close> puts the record it returns into the map under the new
  identity. When an optional field of the input carries a falsy value
  (\<open>joinNewsletter\<close> false, or the empty string in \<open>phone\<close>, \<open>brideName\<close>,
  \<open>groomName\<close> or \<open>tourGuide\<close>), the row stored under the new identity has
  \<open>null\<close> in that field, and both the returned record and the new state are those of
  the same input with the field left out.
\<close>

theorem C10_falsy_stored_as_null:
  "stored_guest inp st = Some (fst (createGuest inp st))
   \<and> fst (createGuest inp st) \<in> set (getGuests (snd (createGuest inp st)))
   \<and> (ig_joinNewsletter inp = Value False \<longrightarrow>
      map_option g_joinNewsletter (stored_guest inp st) = Some None
      \<and> g_joinNewsletter (fst (createGuest inp st)) = None
      \<and> createGuest inp st = createGuest (inp\<lparr>ig_joinNewsletter := Undefined\<rparr>) st)
   \<and> (ig_phone inp = Value [] \<longrightarrow>
      map_option g_phone (stored_guest inp st) = Some None
      \<and> g_phone (fst (createGuest inp st)) = None
      \<and> createGuest inp st = createGuest (inp\<lparr>ig_phone := Undefined\<rparr>) st)
   \<and> (ig_brideName inp = Value [] \<longrightarrow>
      map_option g_brideName (stored_guest inp st) = Some None
      \<and> g_brideName (fst (createGuest inp st)) = None
      \<and> createGuest inp st = createGuest (inp\<lparr>ig_brideName := Undefined\<rparr>) st)
   \<and> (ig_groomName inp = Value [] \<longrightarrow>
      map_option g_groomName (stored_guest inp st) = Some None
      \<and> g_groomName (fst (createGuest inp st)) = None
      \<and> createGuest inp st = createGuest (inp\<lparr>ig_groomName := Undefined\<rparr>) st)
   \<and> (ig_tourGuide inp = Value [] \<longrightarrow>
      map_option g_tourGuide (stored_guest inp st) = Some None
      \<and> g_tourGuide (fst (createGuest inp st)) = None
      \<and> createGuest inp st = createGuest (inp\<lparr>ig_tourGuide := Undefined\<rparr>) st)"
proof -
  have stored: "stored_guest inp st = Some (fst (createGuest inp st))"
    by (rule stored_guest_created)
  have listed: "fst (createGuest inp st) \<in> set (getGuests (snd (createGuest inp st)))"
    by (simp add: createGuest_state getGuests_def map_set_values)
  have newsletter: "ig_joinNewsletter inp = Value False \<longrightarrow>
      map_option g_joinNewsletter (stored_guest inp st) = Some None
      \<and> g_joinNewsletter (fst (createGuest inp st)) = None
      \<and> createGuest inp st = createGuest (inp\<lparr>ig_joinNewsletter := Undefined\<rparr>) st"
    unfolding stored by (simp add: createGuest_def Let_def)
  have phone: "ig_phone inp = Value [] \<longrightarrow>
      map_option g_phone (stored_guest inp st) = Some None
      \<and> g_phone (fst (createGuest inp st)) = None
      \<and> createGuest inp st = createGuest (inp\<lparr>ig_phone := Undefined\<rparr>) st"
    unfolding stored by (simp add: createGuest_def Let_def)
  have bride: "ig_brideName inp = Value [] \<longrightarrow>
      map_option g_brideName (stored_guest inp st) = Some None
      \<and> g_brideName (fst (createGuest inp st)) = None
      \<and> createGuest inp st = createGuest (inp\<lparr>ig_brideName := Undefined\<rparr>) st"
    unfolding stored by (simp add: createGuest_def Let_def)
  have groom: "ig_groomName inp = Value [] \<longrightarrow>
      map_option g_groomName (stored_guest inp st) = Some None
      \<and> g_groomName (fst (createGuest inp st)) = None
      \<and> createGuest inp st = createGuest (inp\<lparr>ig_groomName := Undefined\<rparr>) st"
    unfolding stored by (simp add: createGuest_def Let_def)
  have guide: "ig_tourGuide inp = Value [] \<longrightarrow>
      map_option g_tourGuide (stored_guest inp st) = Some None
      \<and> g_tourGuide (fst (createGuest inp st)) = None
      \<and> createGuest inp st = createGuest (inp\<lparr>ig_tourGuide := Undefined\<rparr>) st"
    unfolding stored by (simp add: createGuest_def Let_def)
  from stored listed newsletter phone bride groom guide show ?thesis by blast
qed

theorem C10_falsy_stored_as_null_witness:
  "ig_joinNewsletter guest_falsy = Value False
   \<and> ig_phone guest_falsy = Value []
   \<and> map_option g_joinNewsletter (stored_guest guest_falsy MemStorage_new) = Some None
   \<and> map_option g_phone (stored_guest guest_falsy MemStorage_new) = Some None
   \<and> map_option g_id (stored_guest guest_falsy MemStorage_new) = Some 1
   \<and> createGuest guest_falsy MemStorage_new =
       createGuest (guest_falsy\<lparr>ig_joinNewsletter := Undefined\<rparr>) MemStorage_new"
proof -
  have falsy: "ig_joinNewsletter guest_falsy = Value False" "ig_phone guest_falsy = Value []"
    by (simp_all add: guest_falsy_def)
  have "g_id (fst (createGuest guest_falsy MemStorage_new)) = 1"
    by (simp add: createGuest_row MemStorage_new_def)
  with falsy C10_falsy_stored_as_null [of guest_falsy MemStorage_new] show ?thesis by auto
qed

text \<open>
  Claim C5 on the in-memory store. A field left out of the input is stored as
  \<open>null\<close>: this is the documented default for \<open>phone\<close>, \<open>brideName\<close>,
  \<open>groomName\<close>, \<open>tourGuide\<close> and for a volunteer's \<open>timeOut\<close>, but for
  \<open>joinNewsletter\<close> the stored value is \<open>null\<close> as well, not the \<open>false\<close> that
  the column declares as its default.
\<close>

theorem C5_omitted_fields_are_null:
  "(ig_joinNewsletter inp = Undefined \<longrightarrow>
      g_joinNewsletter (fst (createGuest inp st)) = None
      \<and> g_joinNewsletter (fst (createGuest inp st)) \<noteq> Some False)
   \<and> (ig_phone inp = Undefined \<longrightarrow> g_phone (fst (createGuest inp st)) = None)
   \<and> (ig_brideName inp = Undefined \<longrightarrow> g_brideName (fst (createGuest inp st)) = None)
   \<and> (ig_groomName inp = Undefined \<longrightarrow> g_groomName (fst (createGuest inp st)) = None)
   \<and> (ig_tourGuide inp = Undefined \<longrightarrow> g_tourGuide (fst (createGuest inp st)) = None)
   \<and> (iv_timeOut vinp = Undefined \<longrightarrow> v_timeOut (fst (createVolunteer vinp st)) = None)"
  by (simp add: createGuest_row createVolunteer_row)

theorem C5_omitted_fields_are_null_witness:
  "ig_joinNewsletter guest_minimal = Undefined
   \<and> g_joinNewsletter (fst (createGuest guest_minimal MemStorage_new)) = None
   \<and> g_joinNewsletter (fst (createGuest guest_minimal MemStorage_new)) \<noteq> Some False
   \<and> iv_timeOut (checkin ''Bob'' ''garden'') = Undefined
   \<and> v_timeOut (fst (createVolunteer (checkin ''Bob'' ''garden'') MemStorage_new)) = None"
proof -
  have omitted: "ig_joinNewsletter guest_minimal = Undefined"
      "iv_timeOut (checkin ''Bob'' ''garden'') = Undefined"
    by (simp_all add: guest_minimal_def checkin_def)
  with C5_omitted_fields_are_null [of guest_minimal MemStorage_new "checkin ''Bob'' ''garden''"]
  show ?thesis by blast
qed

section \<open>Properties of the distinct-name lists\<close>

lemma set_add_set: "set (set_add x elems) = insert x (set elems)"
  by (auto simp: set_add_def)

lemma set_add_distinct: "distinct elems \<Longrightarrow> distinct (set_add x elems)"
  by (simp add: set_add_def)

lemma set_from_set: "set (set_from xs elems) = set xs \<union> set elems"
  by (induction xs arbitrary: elems) (simp_all add: set_add_set)

lemma set_from_distinct: "distinct elems \<Longrightarrow> distinct (set_from xs elems)"
  by (induction xs arbitrary: elems) (simp_all add: set_add_distinct)

lemma new_Set_set: "set (new_Set xs) = set xs"
  by (simp add: new_Set_def set_from_set)

lemma new_Set_distinct: "distinct (new_Set xs)"
  by (simp add: new_Set_def set_from_distinct)

lemma js_sort_new_Set: "js_sort (new_Set xs) = sorted_list_of_set (set xs)"
proof -
  have "sort (new_Set xs) = sorted_list_of_set (set (new_Set xs))"
    using new_Set_distinct [of xs] by (simp add: sorted_list_of_set_sort_remdups distinct_remdups_id)
  then show ?thesis by (simp add: js_sort_def new_Set_set)
qed

lemma names_Bob_Ann_Bob: "js_sort (new_Set [''Bob'', ''Ann'', ''Bob'']) = [''Ann'', ''Bob'']"
  by (simp add: js_sort_def new_Set_def set_add_def)

text \<open>
  Claim C7. For every state, \<open>getUniqueVolunteerNames\<close> is the list of the
  distinct \<open>name\<close> values of the volunteer rows in strictly ascending lexicographic
  order: it holds exactly the names that occur, each once, however many rows share a
  name. Rows named Bob, Ann, Bob give exactly Ann, Bob. \<open>getUniqueStaffNames\<close> is the
  same over the staff rows.
\<close>

theorem C7_unique_names_sorted:
  "getUniqueVolunteerNames st = sorted_list_of_set (v_name ` set (getVolunteers st))
   \<and> set (getUniqueVolunteerNames st) = v_name ` set (getVolunteers st)
   \<and> distinct (getUniqueVolunteerNames st)
   \<and> sorted_wrt (<) (getUniqueVolunteerNames st)
   \<and> (map v_name (getVolunteers st) = [''Bob'', ''Ann'', ''Bob''] \<longrightarrow>
        getUniqueVolunteerNames st = [''Ann'', ''Bob''])
   \<and> getUniqueStaffNames st = sorted_list_of_set (s_name ` set (getStaff st))
   \<and> set (getUniqueStaffNames st) = s_name ` set (getStaff st)
   \<and> distinct (getUniqueStaffNames st)
   \<and> sorted_wrt (<) (getUniqueStaffNames st)
   \<and> (map s_name (getStaff st) = [''Bob'', ''Ann'', ''Bob''] \<longrightarrow>
        getUniqueStaffNames st = [''Ann'', ''Bob''])"
proof -
  have v: "getUniqueVolunteerNames st = sorted_list_of_set (v_name ` set (getVolunteers st))"
    by (simp add: getUniqueVolunteerNames_def getVolunteers_def js_sort_new_Set)
  have s: "getUniqueStaffNames st = sorted_list_of_set (s_name ` set (getStaff st))"
    by (simp add: getUniqueStaffNames_def getStaff_def js_sort_new_Set)
  have vex: "map v_name (getVolunteers st) = [''Bob'', ''Ann'', ''Bob''] \<longrightarrow>
        getUniqueVolunteerNames st = [''Ann'', ''Bob'']"
    by (simp add: getUniqueVolunteerNames_def getVolunteers_def names_Bob_Ann_Bob)
  have sex: "map s_name (getStaff st) = [''Bob'', ''Ann'', ''Bob''] \<longrightarrow>
        getUniqueStaffNames st = [''Ann'', ''Bob'']"
    by (simp add: getUniqueStaffNames_def getStaff_def names_Bob_Ann_Bob)
  have vprops: "set (getUniqueVolunteerNames st) = v_name ` set (getVolunteers st)"
      "distinct (getUniqueVolunteerNames st)" "sorted_wrt (<) (getUniqueVolunteerNames st)"
    unfolding v by (simp_all add: strict_sorted_iff)
  have sprops: "set (getUniqueStaffNames st) = s_name ` set (getStaff st)"
      "distinct (getUniqueStaffNames st)" "sorted_wrt (<) (getUniqueStaffNames st)"
    unfolding s by (simp_all add: strict_sorted_iff)
  from v s vex sex vprops sprops show ?thesis by blast
qed

lemma demo_checkins_names:
  "map v_name (getVolunteers (final demo_checkins MemStorage_new)) = [''Bob'', ''Ann'', ''Bob'']"
  by (simp add: demo_checkins_def MemStorage_new_def createVolunteer_state createVolunteer_row
      checkin_def getVolunteers_def map_values_def)

theorem C7_unique_names_sorted_witness:
  "map v_name (getVolunteers (final demo_checkins MemStorage_new)) = [''Bob'', ''Ann'', ''Bob'']
   \<and> getUniqueVolunteerNames (final demo_checkins MemStorage_new) = [''Ann'', ''Bob'']"
  using C7_unique_names_sorted [of "final demo_checkins MemStorage_new"] demo_checkins_names
  by blast

section \<open>Properties of the identities\<close>

lemma exec_counter_mono: "counter kind st \<le> counter kind (snd (exec x st))"
  by (cases x)
    (simp_all add: counter_def createVolunteer_state createGuest_state createStaff_state
      deletePerson_counters)

lemma assigned_lower_bound:
  "list_all (\<lambda>i. counter kind st \<le> i) (assigned kind (trace ops st))"
proof (induction ops arbitrary: st)
  case Nil
  show ?case by simp
next
  case (Cons x ops)
  have later: "list_all (\<lambda>i. counter kind st \<le> i) (assigned kind (trace ops (snd (exec x st))))"
    using Cons.IH [of "snd (exec x st)"] exec_counter_mono [of kind st x]
    by (auto simp: list_all_iff)
  show ?case
    using later
    by (cases x) (auto simp: counter_def createVolunteer_row createGuest_row createStaff_row)
qed

lemma exec_created_next:
  "fst (exec x st) = Created kind i \<Longrightarrow>
   i = counter kind st \<and> counter kind (snd (exec x st)) = i + 1"
  by (cases x)
    (auto simp: counter_def createVolunteer_row createGuest_row createStaff_row
      createVolunteer_state createGuest_state createStaff_state)

lemma assigned_increasing: "sorted_wrt (<) (assigned kind (trace ops st))"
proof (induction ops arbitrary: st)
  case Nil
  show ?case by simp
next
  case (Cons x ops)
  show ?case
  proof (cases "fst (exec x st)")
    case (Created k i)
    show ?thesis
    proof (cases "k = kind")
      case True
      with Created exec_created_next [of x st kind i]
      have "counter kind (snd (exec x st)) = i + 1" by simp
      with assigned_lower_bound [of kind "snd (exec x st)" ops]
      have "list_all (\<lambda>j. i < j) (assigned kind (trace ops (snd (exec x st))))"
        by (auto simp: list_all_iff)
      with Created True Cons.IH [of "snd (exec x st)"] show ?thesis
        by (simp add: list_all_iff)
    next
      case False
      with Created Cons.IH [of "snd (exec x st)"] show ?thesis by simp
    qed
  next
    case (Deleted k i b)
    with Cons.IH [of "snd (exec x st)"] show ?thesis by simp
  qed
qed

lemma keys_below_new: "keys_below MemStorage_new"
  by (simp add: keys_below_def MemStorage_new_def map_keys_def)

lemma list_all_map_set:
  "list_all (\<lambda>k. k < c) (map_keys m) \<Longrightarrow> list_all (\<lambda>k. k \<le> c) (map_keys (map_set c v m))"
  for c :: int
  by (auto simp: list_all_iff map_set_keys)

lemma list_all_map_delete:
  "list_all P (map_keys m) \<Longrightarrow> list_all P (map_keys (snd (map_delete k m)))"
  using map_delete_keys_subset [of k m] by (auto simp: list_all_iff)

lemma exec_keys_below: "keys_below st \<Longrightarrow> keys_below (snd (exec x st))"
  by (cases x)
    (auto simp: keys_below_def createVolunteer_state createGuest_state createStaff_state
      deletePerson_def list_all_map_set list_all_map_delete)

lemma final_keys_below: "keys_below st \<Longrightarrow> keys_below (final ops st)"
  by (induction ops arbitrary: st) (simp_all add: exec_keys_below)

lemma deleted_below_counter:
  "keys_below st \<Longrightarrow> fst (deletePerson kind x st) \<Longrightarrow> x < counter kind st"
  by (auto simp: keys_below_def deletePerson_def counter_def map_delete_found list_all_iff
      split: if_splits)

lemma trace_append: "trace (xs @ ys) st = trace xs st @ trace ys (final xs st)"
  by (induction xs arbitrary: st) simp_all

lemma length_trace: "length (trace xs st) = length xs"
  by (induction xs arbitrary: st) simp_all

lemma freed_not_reassigned:
  assumes "keys_below st" and "fst (deletePerson kind x st)"
  shows "x \<notin> set (assigned kind (trace ops (snd (deletePerson kind x st))))"
proof -
  have "x < counter kind st" using assms by (rule deleted_below_counter)
  moreover have "counter kind (snd (deletePerson kind x st)) = counter kind st"
    by (simp add: counter_def deletePerson_counters)
  ultimately show ?thesis
    using assigned_lower_bound [of kind "snd (deletePerson kind x st)" ops]
    by (auto simp: list_all_iff)
qed

text \<open>
  Claim C8. Along every sequence of creations and deletions run from a new store,
  the identities handed out within one kind are strictly increasing in the order of the
  creations, hence pairwise distinct; and when a deletion in that kind has removed a
  row (it answered true), the identity it freed is not handed out by any later
  creation in that kind.
\<close>

theorem C8_identities_increase:
  "sorted_wrt (<) (assigned kind (trace ops MemStorage_new))
   \<and> distinct (assigned kind (trace ops MemStorage_new))
   \<and> (trace (before @ DeletePerson kind x # after) MemStorage_new =
        evs1 @ Deleted kind x True # evs2 \<and> length evs1 = length before \<longrightarrow>
      x \<notin> set (assigned kind evs2))"
proof -
  have inc: "sorted_wrt (<) (assigned kind (trace ops MemStorage_new))"
    by (rule assigned_increasing)
  then have dist: "distinct (assigned kind (trace ops MemStorage_new))"
    by (simp add: strict_sorted_iff)
  have freed: "trace (before @ DeletePerson kind x # after) MemStorage_new =
        evs1 @ Deleted kind x True # evs2 \<and> length evs1 = length before \<longrightarrow>
      x \<notin> set (assigned kind evs2)"
  proof (intro impI, elim conjE)
    let ?st = "final before MemStorage_new"
    assume tr: "trace (before @ DeletePerson kind x # after) MemStorage_new =
        evs1 @ Deleted kind x True # evs2" and len: "length evs1 = length before"
    have "trace before MemStorage_new @
          Deleted kind x (fst (deletePerson kind x ?st)) #
          trace after (snd (deletePerson kind x ?st)) = evs1 @ Deleted kind x True # evs2"
      using tr by (simp add: trace_append)
    with len have flag: "fst (deletePerson kind x ?st)"
      and rest: "evs2 = trace after (snd (deletePerson kind x ?st))"
      by (simp_all add: length_trace)
    have "keys_below ?st" by (simp add: final_keys_below keys_below_new)
    with flag rest show "x \<notin> set (assigned kind evs2)"
      by (simp add: freed_not_reassigned)
  qed
  from inc dist freed show ?thesis by blast
qed

lemma demo_trace:
  "trace [CreateVolunteer (checkin ''Bob'' ''garden''), CreateVolunteer (checkin ''Ann'' ''garden''),
          DeletePerson ''volunteer'' 2, CreateStaff (clock_in ''Pat''),
          CreateVolunteer (checkin ''Bob'' ''house'')] MemStorage_new =
   [Created ''volunteer'' 1, Created ''volunteer'' 2, Deleted ''volunteer'' 2 True,
    Created ''staff'' 1, Created ''volunteer'' 3]"
  by (simp add: MemStorage_new_def createVolunteer_state createVolunteer_row createStaff_state
      createStaff_row deletePerson_def checkin_def clock_in_def)

theorem C8_identities_increase_witness:
  "trace ([CreateVolunteer (checkin ''Bob'' ''garden''), CreateVolunteer (checkin ''Ann'' ''garden'')]
          @ DeletePerson ''volunteer'' 2
          # [CreateStaff (clock_in ''Pat''), CreateVolunteer (checkin ''Bob'' ''house'')])
     MemStorage_new =
     [Created ''volunteer'' 1, Created ''volunteer'' 2] @ Deleted ''volunteer'' 2 True
       # [Created ''staff'' 1, Created ''volunteer'' 3]
   \<and> assigned ''volunteer'' [Created ''staff'' 1, Created ''volunteer'' 3] = [3]
   \<and> 2 \<notin> set (assigned ''volunteer'' [Created ''staff'' 1, Created ''volunteer'' 3])"
proof -
  have tr: "trace ([CreateVolunteer (checkin ''Bob'' ''garden''), CreateVolunteer (checkin ''Ann'' ''garden'')]
          @ DeletePerson ''volunteer'' 2
          # [CreateStaff (clock_in ''Pat''), CreateVolunteer (checkin ''Bob'' ''house'')])
     MemStorage_new =
     [Created ''volunteer'' 1, Created ''volunteer'' 2] @ Deleted ''volunteer'' 2 True
       # [Created ''staff'' 1, Created ''volunteer'' 3]"
    using demo_trace by simp
  have len: "length [Created ''volunteer'' 1, Created ''volunteer'' 2] =
      length [CreateVolunteer (checkin ''Bob'' ''garden''), CreateVolunteer (checkin ''Ann'' ''garden'')]"
    by simp
  have "2 \<notin> set (assigned ''volunteer'' [Created ''staff'' 1, Created ''volunteer'' 3])"
    using C8_identities_increase [of "''volunteer''" "[]"
        "[CreateVolunteer (checkin ''Bob'' ''garden''), CreateVolunteer (checkin ''Ann'' ''garden'')]"
        2 "[CreateStaff (clock_in ''Pat''), CreateVolunteer (checkin ''Bob'' ''house'')]"
        "[Created ''volunteer'' 1, Created ''volunteer'' 2]"
        "[Created ''staff'' 1, Created ''volunteer'' 3]"] tr len
    by blast
  with tr show ?thesis by simp
qed

section \<open>Properties of the guest registration route\<close>

lemma z_string_path: "list_all (\<lambda>i. zi_path i = [key]) (z_string key v)"
  by (induction key v rule: z_string.induct) simp_all

lemma z_string_nullable_optional_path:
  "list_all (\<lambda>i. zi_path i = [key]) (z_string_nullable_optional key v)"
  by (induction key v rule: z_string_nullable_optional.induct) simp_all

lemma z_boolean_nullable_optional_path:
  "list_all (\<lambda>i. zi_path i = [key]) (z_boolean_nullable_optional key v)"
  by (induction key v rule: z_boolean_nullable_optional.induct) simp_all

lemma z_string_ok: "z_string key v = [] \<longleftrightarrow> is_str v"
  by (induction key v rule: z_string.induct) simp_all

lemma z_string_nullable_optional_ok: "z_string_nullable_optional key v = [] \<longleftrightarrow> is_opt_str v"
  by (induction key v rule: z_string_nullable_optional.induct) simp_all

lemma z_boolean_nullable_optional_ok: "z_boolean_nullable_optional key v = [] \<longleftrightarrow> is_opt_bool v"
  by (induction key v rule: z_boolean_nullable_optional.induct) simp_all

lemma guest_issues_ok:
  "guest_issues kvs = [] \<longleftrightarrow>
     is_str (property kvs ''name'') \<and> is_str (property kvs ''email'') \<and>
     is_opt_str (property kvs ''phone'') \<and> is_str (property kvs ''reason'') \<and>
     is_opt_bool (property kvs ''joinNewsletter'') \<and> is_opt_str (property kvs ''brideName'') \<and>
     is_opt_str (property kvs ''groomName'') \<and> is_opt_str (property kvs ''tourGuide'') \<and>
     is_str (property kvs ''date'')"
  by (simp add: guest_issues_def z_string_ok z_string_nullable_optional_ok
      z_boolean_nullable_optional_ok)

lemma issue_not_brideName:
  "list_all (\<lambda>i. zi_path i = [key]) is \<Longrightarrow> key \<noteq> ''brideName'' \<Longrightarrow>
   list_all (\<lambda>i. zi_path i \<noteq> [''brideName'']) is"
  by (auto simp: list_all_iff)

lemma guest_issues_omitted_brideName:
  assumes "property kvs ''brideName'' = None"
  shows "list_all (\<lambda>i. zi_path i \<noteq> [''brideName'']) (guest_issues kvs)"
proof -
  have "list_all (\<lambda>i. zi_path i \<noteq> [''brideName'']) (z_string key v)"
    if "key \<noteq> ''brideName''" for key v
    using z_string_path that by (rule issue_not_brideName)
  moreover have "list_all (\<lambda>i. zi_path i \<noteq> [''brideName'']) (z_string_nullable_optional key v)"
    if "key \<noteq> ''brideName''" for key v
    using z_string_nullable_optional_path that by (rule issue_not_brideName)
  moreover have "list_all (\<lambda>i. zi_path i \<noteq> [''brideName'']) (z_boolean_nullable_optional key v)"
    if "key \<noteq> ''brideName''" for key v
    using z_boolean_nullable_optional_path that by (rule issue_not_brideName)
  ultimately show ?thesis
    using assms by (simp add: guest_issues_def)
qed

text \<open>The typed input that parsing hands to the store.\<close>

lemma parse_accepted:
  assumes "guest_issues kvs = []"
  shows "insertGuestSchema_parse (JObj kvs) =
      Inr \<lparr>ig_name = as_string (property kvs ''name''),
           ig_email = as_string (property kvs ''email''),
           ig_phone = as_string_field (property kvs ''phone''),
           ig_reason = as_string (property kvs ''reason''),
           ig_joinNewsletter = as_bool_field (property kvs ''joinNewsletter''),
           ig_brideName = as_string_field (property kvs ''brideName''),
           ig_groomName = as_string_field (property kvs ''groomName''),
           ig_tourGuide = as_string_field (property kvs ''tourGuide''),
           ig_date = as_string (property kvs ''date'')\<rparr>"
  using assms by simp

lemma wedding_parse:
  assumes reason: "property kvs ''reason'' = Some (JStr ''wedding'')"
    and bride: "property kvs ''brideName'' = None"
    and shapes: "is_str (property kvs ''name'') \<and> is_str (property kvs ''email'') \<and>
         is_str (property kvs ''date'') \<and> is_opt_str (property kvs ''phone'') \<and>
         is_opt_bool (property kvs ''joinNewsletter'') \<and>
         is_opt_str (property kvs ''groomName'') \<and> is_opt_str (property kvs ''tourGuide'')"
  shows "\<exists>inp. insertGuestSchema_parse (JObj kvs) = Inr inp \<and> ig_reason inp = ''wedding'' \<and>
      ig_brideName inp = Undefined"
proof -
  from shapes reason bride have "guest_issues kvs = []" by (simp add: guest_issues_ok)
  from parse_accepted [OF this] reason bride show ?thesis by simp
qed

lemma DatabaseStorage_createGuest_available:
  assumes "db_available dbase"
  shows "\<exists>guest. DatabaseStorage_createGuest inp dbase =
        (Inr guest, dbase\<lparr>guests_table := guests_table dbase @ [guest],
                          guests_id_seq := guests_id_seq dbase + 1\<rparr>)
      \<and> g_id guest = guests_id_seq dbase \<and> g_reason guest = ig_reason inp
      \<and> g_brideName guest = column_value None (ig_brideName inp)"
  using assms by (simp add: DatabaseStorage_createGuest_def Let_def)

text \<open>
  Claim C3, as the code has it. A guest input whose \<open>reason\<close> is \<open>wedding\<close> and
  whose \<open>brideName\<close> is left out is not rejected for that, whatever store stands
  behind the route: if the route answers 400, no validation issue names \<open>brideName\<close>
  and the store is untouched; and when \<open>name\<close>, \<open>email\<close> and \<open>date\<close> are strings
  and \<open>phone\<close>, \<open>joinNewsletter\<close>, \<open>groomName\<close>, \<open>tourGuide\<close> are missing,
  null or of their type, parsing succeeds, the store's \<open>createGuest\<close> receives the
  input with \<open>brideName\<close> absent, and the route answers with the row the store
  returns (or 500 when the store raises). The database store, when available, and
  the in-memory store both create the row with \<open>brideName\<close> null.
\<close>

theorem C3_wedding_without_brideName_accepted:
  "property kvs ''reason'' = Some (JStr ''wedding'') \<and> property kvs ''brideName'' = None \<longrightarrow>
     (\<forall>msg errors db'. post_guest store (JObj kvs) db = (Json400 msg errors, db') \<longrightarrow>
        list_all (\<lambda>i. zi_path i \<noteq> [''brideName'']) errors \<and> db' = db)
     \<and> (is_str (property kvs ''name'') \<and> is_str (property kvs ''email'') \<and>
         is_str (property kvs ''date'') \<and> is_opt_str (property kvs ''phone'') \<and>
         is_opt_bool (property kvs ''joinNewsletter'') \<and>
         is_opt_str (property kvs ''groomName'') \<and> is_opt_str (property kvs ''tourGuide'') \<longrightarrow>
         (\<exists>inp. insertGuestSchema_parse (JObj kvs) = Inr inp
                \<and> ig_reason inp = ''wedding'' \<and> ig_brideName inp = Undefined
                \<and> post_guest store (JObj kvs) db =
                    (case store inp db of
                       (Inr guest, db') \<Rightarrow> (Json200 guest, db')
                     | (Inl err, db') \<Rightarrow> (Json500 ''Failed to register guest'', db')))
         \<and> (db_available dbase \<longrightarrow>
              (\<exists>guest. post_guest DatabaseStorage_createGuest (JObj kvs) dbase =
                    (Json200 guest, dbase\<lparr>guests_table := guests_table dbase @ [guest],
                                            guests_id_seq := guests_id_seq dbase + 1\<rparr>)
                  \<and> g_id guest = guests_id_seq dbase \<and> g_reason guest = ''wedding''
                  \<and> g_brideName guest = None))
         \<and> (\<exists>guest. post_guest MemStorage_createGuest (JObj kvs) st =
                    (Json200 guest, st\<lparr>currentGuestId := currentGuestId st + 1,
                                        guests := map_set (currentGuestId st) guest (guests st)\<rparr>)
                  \<and> g_id guest = currentGuestId st \<and> g_reason guest = ''wedding''
                  \<and> g_brideName guest = None))"
proof (intro impI, elim conjE)
  assume reason: "property kvs ''reason'' = Some (JStr ''wedding'')"
    and bride: "property kvs ''brideName'' = None"
  have rejected: "\<forall>msg errors db'. post_guest store (JObj kvs) db = (Json400 msg errors, db') \<longrightarrow>
        list_all (\<lambda>i. zi_path i \<noteq> [''brideName'']) errors \<and> db' = db"
    using guest_issues_omitted_brideName [OF bride]
    by (auto simp: post_guest_def split: if_splits prod.splits sum.splits)
  have accepted:
    "(\<exists>inp. insertGuestSchema_parse (JObj kvs) = Inr inp
                \<and> ig_reason inp = ''wedding'' \<and> ig_brideName inp = Undefined
                \<and> post_guest store (JObj kvs) db =
                    (case store inp db of
                       (Inr guest, db') \<Rightarrow> (Json200 guest, db')
                     | (Inl err, db') \<Rightarrow> (Json500 ''Failed to register guest'', db')))
         \<and> (db_available dbase \<longrightarrow>
              (\<exists>guest. post_guest DatabaseStorage_createGuest (JObj kvs) dbase =
                    (Json200 guest, dbase\<lparr>guests_table := guests_table dbase @ [guest],
                                            guests_id_seq := guests_id_seq dbase + 1\<rparr>)
                  \<and> g_id guest = guests_id_seq dbase \<and> g_reason guest = ''wedding''
                  \<and> g_brideName guest = None))
         \<and> (\<exists>guest. post_guest MemStorage_createGuest (JObj kvs) st =
                    (Json200 guest, st\<lparr>currentGuestId := currentGuestId st + 1,
                                        guests := map_set (currentGuestId st) guest (guests st)\<rparr>)
                  \<and> g_id guest = currentGuestId st \<and> g_reason guest = ''wedding''
                  \<and> g_brideName guest = None)"
    if shapes: "is_str (property kvs ''name'') \<and> is_str (property kvs ''email'') \<and>
         is_str (property kvs ''date'') \<and> is_opt_str (property kvs ''phone'') \<and>
         is_opt_bool (property kvs ''joinNewsletter'') \<and>
         is_opt_str (property kvs ''groomName'') \<and> is_opt_str (property kvs ''tourGuide'')"
  proof -
    from wedding_parse [OF reason bride shapes]
    obtain inp where parsed: "insertGuestSchema_parse (JObj kvs) = Inr inp"
      and inp: "ig_reason inp = ''wedding''" "ig_brideName inp = Undefined"
      by blast
    have route: "post_guest impl (JObj kvs) d =
        (case impl inp d of
           (Inr guest, db') \<Rightarrow> (Json200 guest, db')
         | (Inl err, db') \<Rightarrow> (Json500 ''Failed to register guest'', db'))" for impl and d :: 'x
      unfolding post_guest_def parsed by simp
    have abstract: "\<exists>inp. insertGuestSchema_parse (JObj kvs) = Inr inp
                \<and> ig_reason inp = ''wedding'' \<and> ig_brideName inp = Undefined
                \<and> post_guest store (JObj kvs) db =
                    (case store inp db of
                       (Inr guest, db') \<Rightarrow> (Json200 guest, db')
                     | (Inl err, db') \<Rightarrow> (Json500 ''Failed to register guest'', db'))"
      using parsed inp route [of store db] by blast
    have database: "\<exists>guest. post_guest DatabaseStorage_createGuest (JObj kvs) dbase =
                    (Json200 guest, dbase\<lparr>guests_table := guests_table dbase @ [guest],
                                            guests_id_seq := guests_id_seq dbase + 1\<rparr>)
                  \<and> g_id guest = guests_id_seq dbase \<and> g_reason guest = ''wedding''
                  \<and> g_brideName guest = None"
      if "db_available dbase"
    proof -
      from DatabaseStorage_createGuest_available [OF that, of inp]
      obtain guest where "DatabaseStorage_createGuest inp dbase =
            (Inr guest, dbase\<lparr>guests_table := guests_table dbase @ [guest],
                              guests_id_seq := guests_id_seq dbase + 1\<rparr>)"
        and "g_id guest = guests_id_seq dbase" and "g_reason guest = ig_reason inp"
        and "g_brideName guest = column_value None (ig_brideName inp)"
        by blast
      with inp route [of DatabaseStorage_createGuest dbase] show ?thesis by simp
    qed
    let ?g = "fst (createGuest inp st)"
    have "post_guest MemStorage_createGuest (JObj kvs) st =
        (Json200 ?g, st\<lparr>currentGuestId := currentGuestId st + 1,
                         guests := map_set (currentGuestId st) ?g (guests st)\<rparr>)"
      using route [of MemStorage_createGuest st]
      by (simp add: MemStorage_createGuest_def createGuest_state)
    moreover have "g_id ?g = currentGuestId st" "g_reason ?g = ''wedding''" "g_brideName ?g = None"
      using inp by (simp_all add: createGuest_row)
    ultimately have memory: "\<exists>guest. post_guest MemStorage_createGuest (JObj kvs) st =
                    (Json200 guest, st\<lparr>currentGuestId := currentGuestId st + 1,
                                        guests := map_set (currentGuestId st) guest (guests st)\<rparr>)
                  \<and> g_id guest = currentGuestId st \<and> g_reason guest = ''wedding''
                  \<and> g_brideName guest = None"
      by blast
    from abstract database memory show ?thesis by blast
  qed
  from rejected accepted
  show "(\<forall>msg errors db'. post_guest store (JObj kvs) db = (Json400 msg errors, db') \<longrightarrow>
        list_all (\<lambda>i. zi_path i \<noteq> [''brideName'']) errors \<and> db' = db)
     \<and> (is_str (property kvs ''name'') \<and> is_str (property kvs ''email'') \<and>
         is_str (property kvs ''date'') \<and> is_opt_str (property kvs ''phone'') \<and>
         is_opt_bool (property kvs ''joinNewsletter'') \<and>
         is_opt_str (property kvs ''groomName'') \<and> is_opt_str (property kvs ''tourGuide'') \<longrightarrow>
         (\<exists>inp. insertGuestSchema_parse (JObj kvs) = Inr inp
                \<and> ig_reason inp = ''wedding'' \<and> ig_brideName inp = Undefined
                \<and> post_guest store (JObj kvs) db =
                    (case store inp db of
                       (Inr guest, db') \<Rightarrow> (Json200 guest, db')
                     | (Inl err, db') \<Rightarrow> (Json500 ''Failed to register guest'', db')))
         \<and> (db_available dbase \<longrightarrow>
              (\<exists>guest. post_guest DatabaseStorage_createGuest (JObj kvs) dbase =
                    (Json200 guest, dbase\<lparr>guests_table := guests_table dbase @ [guest],
                                            guests_id_seq := guests_id_seq dbase + 1\<rparr>)
                  \<and> g_id guest = guests_id_seq dbase \<and> g_reason guest = ''wedding''
                  \<and> g_brideName guest = None))
         \<and> (\<exists>guest. post_guest MemStorage_createGuest (JObj kvs) st =
                    (Json200 guest, st\<lparr>currentGuestId := currentGuestId st + 1,
                                        guests := map_set (currentGuestId st) guest (guests st)\<rparr>)
                  \<and> g_id guest = currentGuestId st \<and> g_reason guest = ''wedding''
                  \<and> g_brideName guest = None))"
    by blast
qed

lemma wedding_fields_properties:
  "property wedding_fields ''name'' = Some (JStr ''Ann & Bob'')"
  "property wedding_fields ''email'' = Some (JStr ''ann@example.org'')"
  "property wedding_fields ''phone'' = None"
  "property wedding_fields ''reason'' = Some (JStr ''wedding'')"
  "property wedding_fields ''joinNewsletter'' = None"
  "property wedding_fields ''brideName'' = None"
  "property wedding_fields ''groomName'' = None"
  "property wedding_fields ''tourGuide'' = None"
  "property wedding_fields ''date'' = Some (JStr ''7/22/2025'')"
  by (simp_all add: property_def wedding_fields_def)

theorem C3_wedding_without_brideName_accepted_witness:
  "property wedding_fields ''reason'' = Some (JStr ''wedding'')
   \<and> property wedding_fields ''brideName'' = None
   \<and> db_available Database_new
   \<and> (\<exists>guest. fst (post_guest DatabaseStorage_createGuest (JObj wedding_fields) Database_new) =
          Json200 guest
         \<and> g_id guest = 1 \<and> g_reason guest = ''wedding'' \<and> g_brideName guest = None)"
proof -
  have shapes: "is_str (property wedding_fields ''name'') \<and> is_str (property wedding_fields ''email'') \<and>
         is_str (property wedding_fields ''date'') \<and> is_opt_str (property wedding_fields ''phone'') \<and>
         is_opt_bool (property wedding_fields ''joinNewsletter'') \<and>
         is_opt_str (property wedding_fields ''groomName'') \<and>
         is_opt_str (property wedding_fields ''tourGuide'')"
    by (simp add: wedding_fields_properties)
  have fresh: "db_available Database_new" "guests_id_seq Database_new = 1"
    by (simp_all add: Database_new_def)
  from C3_wedding_without_brideName_accepted
      [of wedding_fields DatabaseStorage_createGuest Database_new Database_new MemStorage_new]
    wedding_fields_properties(4,6) shapes fresh(1)
  obtain guest where "post_guest DatabaseStorage_createGuest (JObj wedding_fields) Database_new =
        (Json200 guest, Database_new\<lparr>guests_table := guests_table Database_new @ [guest],
           guests_id_seq := guests_id_seq Database_new + 1\<rparr>)"
    and "g_id guest = guests_id_seq Database_new" and "g_reason guest = ''wedding''"
    and "g_brideName guest = None"
    by blast
  with fresh wedding_fields_properties(4,6) show ?thesis by auto
qed

text \<open>
  The claim as stated fails: a wedding registration with \<open>name\<close>, \<open>email\<close>,
  \<open>reason\<close> and \<open>date\<close> and no \<open>brideName\<close> raises no validation issue; posted
  to an empty database it is answered with the created guest, which is then in the table,
  and the in-memory store creates it as well.
\<close>

theorem C3_wedding_rejected_counterexample:
  "property wedding_fields ''reason'' = Some (JStr ''wedding'')
   \<and> property wedding_fields ''brideName'' = None
   \<and> guest_issues wedding_fields = []
   \<and> post_guest DatabaseStorage_createGuest (JObj wedding_fields) Database_new =
       (Json200 \<lparr>g_id = 1, g_name = ''Ann & Bob'', g_email = ''ann@example.org'',
                 g_phone = None, g_reason = ''wedding'', g_joinNewsletter = Some False,
                 g_brideName = None, g_groomName = None, g_tourGuide = None,
                 g_date = ''7/22/2025''\<rparr>,
        \<lparr>guests_table =
           [\<lparr>g_id = 1, g_name = ''Ann & Bob'', g_email = ''ann@example.org'',
             g_phone = None, g_reason = ''wedding'', g_joinNewsletter = Some False,
             g_brideName = None, g_groomName = None, g_tourGuide = None,
             g_date = ''7/22/2025''\<rparr>],
         guests_id_seq = 2, db_available = True\<rparr>)
   \<and> fst (post_guest MemStorage_createGuest (JObj wedding_fields) MemStorage_new) =
       Json200 \<lparr>g_id = 1, g_name = ''Ann & Bob'', g_email = ''ann@example.org'',
                g_phone = None, g_reason = ''wedding'', g_joinNewsletter = None,
                g_brideName = None, g_groomName = None, g_tourGuide = None,
                g_date = ''7/22/2025''\<rparr>"
proof -
  have ok: "guest_issues wedding_fields = []"
    by (simp add: guest_issues_def wedding_fields_properties)
  have database: "post_guest DatabaseStorage_createGuest (JObj wedding_fields) Database_new =
       (Json200 \<lparr>g_id = 1, g_name = ''Ann & Bob'', g_email = ''ann@example.org'',
                 g_phone = None, g_reason = ''wedding'', g_joinNewsletter = Some False,
                 g_brideName = None, g_groomName = None, g_tourGuide = None,
                 g_date = ''7/22/2025''\<rparr>,
        \<lparr>guests_table =
           [\<lparr>g_id = 1, g_name = ''Ann & Bob'', g_email = ''ann@example.org'',
             g_phone = None, g_reason = ''wedding'', g_joinNewsletter = Some False,
             g_brideName = None, g_groomName = None, g_tourGuide = None,
             g_date = ''7/22/2025''\<rparr>],
         guests_id_seq = 2, db_available = True\<rparr>)"
    using ok
    by (simp add: post_guest_def wedding_fields_properties DatabaseStorage_createGuest_def
        Database_new_def Let_def)
  have memory: "fst (post_guest MemStorage_createGuest (JObj wedding_fields) MemStorage_new) =
       Json200 \<lparr>g_id = 1, g_name = ''Ann & Bob'', g_email = ''ann@example.org'',
                g_phone = None, g_reason = ''wedding'', g_joinNewsletter = None,
                g_brideName = None, g_groomName = None, g_tourGuide = None,
                g_date = ''7/22/2025''\<rparr>"
    using ok
    by (simp add: post_guest_def wedding_fields_properties MemStorage_createGuest_def
        createGuest_row MemStorage_new_def)
  from ok database memory wedding_fields_properties(4,6) show ?thesis by blast
qed

end
